theory Spec2Isabelle
  imports Complex_Main "HOL-Library.Word"
begin

section \<open>MitoGraph: segmentation and attribute core of \<^verbatim>\<open>MitoGraph.cxx\<close>\<close>

text \<open>
  Conventions of the embedding.
  \<^item> A C++ \<^verbatim>\<open>double\<close> (and the \<^verbatim>\<open>float\<close> of the derivative arrays) is a
    \<^typ>\<open>real\<close>: rounding, infinities and NaN are outside the model, so \<^verbatim>\<open>sqrt\<close>,
    \<^verbatim>\<open>exp\<close>, \<^verbatim>\<open>fabs\<close> and \<^verbatim>\<open>acos\<close> are the real functions.
  \<^item> A VTK data array with one component is a list indexed by the point id; a loop
    \<^verbatim>\<open>for (id = N; id--;)\<close> that writes tuple \<^verbatim>\<open>id\<close> from tuples \<^verbatim>\<open>id\<close> only
    is a \<^const>\<open>map\<close> over \<^term>\<open>[0..<N]\<close>.
  \<^item> An \<^verbatim>\<open>unsigned char\<close> is an \<^typ>\<open>8 word\<close>.
  \<^item> Library routines of VTK that the source calls but does not define
    (\<^verbatim>\<open>vtkMath::Diagonalize3x3\<close>, the Gaussian smoothing) are parameters.
\<close>

subsection \<open>Eigenvalue ordering: \<^verbatim>\<open>Swap\<close>, \<^verbatim>\<open>Sort\<close>, \<^verbatim>\<open>FrobeniusNorm\<close>\<close>

type_synonym mat3 = "nat \<Rightarrow> nat \<Rightarrow> real"

type_synonym triple = "real \<times> real \<times> real"

definition Swap :: "real \<times> real \<Rightarrow> real \<times> real" where
  "Swap p = (case p of (x, y) \<Rightarrow> (y, x))"

text \<open>The three conditional swaps of \<^verbatim>\<open>Sort\<close>, in the order of the source.\<close>

definition Sort :: "triple \<Rightarrow> triple" where
  "Sort t =
     (case t of (l1, l2, l3) \<Rightarrow>
        (case (if \<bar>l1\<bar> > \<bar>l2\<bar> then Swap (l1, l2) else (l1, l2)) of (l1, l2) \<Rightarrow>
        (case (if \<bar>l2\<bar> > \<bar>l3\<bar> then Swap (l2, l3) else (l2, l3)) of (l2, l3) \<Rightarrow>
        (case (if \<bar>l1\<bar> > \<bar>l2\<bar> then Swap (l1, l2) else (l1, l2)) of (l1, l2) \<Rightarrow>
           (l1, l2, l3)))))"

text \<open>\<^verbatim>\<open>for (i = 3; i--;) for (j = 3; j--;) f += M[i][j]*M[i][j]; return sqrt(f);\<close>\<close>

definition FrobeniusNorm :: "mat3 \<Rightarrow> real" where
  "FrobeniusNorm M =
     sqrt (fold (\<lambda>ij f. f + M (fst ij) (snd ij) * M (fst ij) (snd ij))
             [(i, j). i \<leftarrow> [2, 1, 0], j \<leftarrow> [2, 1, 0]] 0)"

subsection \<open>\<^verbatim>\<open>GetHessianEigenvaluesDiscrete\<close>\<close>

text \<open>
  The six second-derivative arrays that the routine fills with
  \<^verbatim>\<open>GetImageDerivativeDiscrete\<close> from the Gaussian-smoothed image.
\<close>

record second_derivatives =
  Dxx :: "real list"
  Dyy :: "real list"
  Dzz :: "real list"
  Dxy :: "real list"
  Dxz :: "real list"
  Dyz :: "real list"

definition Hessian_at :: "second_derivatives \<Rightarrow> nat \<Rightarrow> mat3" where
  "Hessian_at D idx = (\<lambda>i j.
     [[Dxx D ! idx, Dxy D ! idx, Dxz D ! idx],
      [Dxy D ! idx, Dyy D ! idx, Dyz D ! idx],
      [Dxz D ! idx, Dyz D ! idx, Dzz D ! idx]] ! i ! j)"

text \<open>
  First loop, one voxel: the eigenvalues are computed only when the trace is negative,
  and are \<^verbatim>\<open>0.0\<close> otherwise. \<open>Diagonalize3x3\<close> stands for \<^verbatim>\<open>vtkMath::Diagonalize3x3\<close>
  and returns \<^verbatim>\<open>Eva[0], Eva[1], Eva[2]\<close>.
\<close>

definition eig_first_pass :: "(mat3 \<Rightarrow> triple) \<Rightarrow> second_derivatives \<Rightarrow> nat \<Rightarrow> triple" where
  "eig_first_pass Diagonalize3x3 D idx =
     (let H = Hessian_at D idx
      in if H 0 0 + H 1 1 + H 2 2 < 0 then Sort (Diagonalize3x3 H) else (0, 0, 0))"

definition Fro :: "nat \<Rightarrow> second_derivatives \<Rightarrow> real list" where
  "Fro N D = map (\<lambda>idx. FrobeniusNorm (Hessian_at D idx)) [0..<N]"

text \<open>
  \<^verbatim>\<open>Fro -> GetRange(frobenius_norm_range); ftresh = sqrt(frobenius_norm_range[1]);\<close>
  The upper end of the range of a non-empty array is its largest tuple.
\<close>

definition ftresh :: "nat \<Rightarrow> second_derivatives \<Rightarrow> real" where
  "ftresh N D = sqrt (Max (set (Fro N D)))"

text \<open>Second loop, one voxel: the triple is zeroed when the norm is below the floor.\<close>

definition eig_stored :: "(mat3 \<Rightarrow> triple) \<Rightarrow> nat \<Rightarrow> second_derivatives \<Rightarrow> nat \<Rightarrow> triple" where
  "eig_stored Diagonalize3x3 N D idx =
     (if Fro N D ! idx < ftresh N D then (0, 0, 0) else eig_first_pass Diagonalize3x3 D idx)"

text \<open>The arrays \<^verbatim>\<open>L1\<close>, \<^verbatim>\<open>L2\<close>, \<^verbatim>\<open>L3\<close> when the routine returns.\<close>

definition GetHessianEigenvaluesDiscrete ::
  "(mat3 \<Rightarrow> triple) \<Rightarrow> nat \<Rightarrow> second_derivatives \<Rightarrow> real list \<times> real list \<times> real list" where
  "GetHessianEigenvaluesDiscrete Diagonalize3x3 N D =
     (map (\<lambda>idx. fst (eig_stored Diagonalize3x3 N D idx)) [0..<N],
      map (\<lambda>idx. fst (snd (eig_stored Diagonalize3x3 N D idx))) [0..<N],
      map (\<lambda>idx. snd (snd (eig_stored Diagonalize3x3 N D idx))) [0..<N])"

subsection \<open>\<^verbatim>\<open>GetHessianEigenvaluesDiscreteZDependentThreshold\<close>\<close>

definition GetX :: "nat \<Rightarrow> nat \<times> nat \<times> nat \<Rightarrow> nat" where
  "GetX idx Dim = (case Dim of (d0, d1, d2) \<Rightarrow> idx mod d0)"

definition GetY :: "nat \<Rightarrow> nat \<times> nat \<times> nat \<Rightarrow> nat" where
  "GetY idx Dim = (case Dim of (d0, d1, d2) \<Rightarrow> (idx mod (d0 * d1)) div d0)"

definition GetZ :: "nat \<Rightarrow> nat \<times> nat \<times> nat \<Rightarrow> nat" where
  "GetZ idx Dim = (case Dim of (d0, d1, d2) \<Rightarrow> idx div (d0 * d1))"

definition GetId :: "nat \<Rightarrow> nat \<Rightarrow> nat \<Rightarrow> nat \<times> nat \<times> nat \<Rightarrow> nat" where
  "GetId x y z Dim = (case Dim of (d0, d1, d2) \<Rightarrow> x + y * d0 + z * d0 * d1)"

text \<open>The neighbour offsets of the source; the first six are the face neighbours.\<close>

definition ssdx_sort :: "int list" where
  "ssdx_sort = [0, -1, 0, 1, 0, 0, -1, 0, 1, 0, -1, 1, 1, -1, -1, 0, 1, 0, -1, 1, 1, -1, -1, 1, 1, -1]"

definition ssdy_sort :: "int list" where
  "ssdy_sort = [0, 0, -1, 0, 1, 0, 0, -1, 0, 1, -1, -1, 1, 1, 0, -1, 0, 1, -1, -1, 1, 1, -1, -1, 1, 1]"

definition ssdz_sort :: "int list" where
  "ssdz_sort = [-1, 0, 0, 0, 0, 1, -1, -1, -1, -1, 0, 0, 0, 0, 1, 1, 1, 1, -1, -1, -1, -1, 1, 1, 1, 1]"

text \<open>The conversion \<^verbatim>\<open>(int) x\<close> of a double, which truncates towards zero.\<close>

definition double_to_int :: "real \<Rightarrow> int" where
  "double_to_int x = (if x < 0 then \<lceil>x\<rceil> else \<lfloor>x\<rfloor>)"

text \<open>The block of a coordinate: \<^verbatim>\<open>int((1.0*nblks*x)/Dim[0])\<close>.\<close>

definition block :: "nat \<Rightarrow> nat \<Rightarrow> nat \<Rightarrow> nat" where
  "block nblks x d = nat (double_to_int ((1.0 * real nblks * real x) / real d))"

definition block_of :: "nat \<Rightarrow> nat \<times> nat \<times> nat \<Rightarrow> nat \<Rightarrow> nat \<times> nat \<times> nat" where
  "block_of nblks Dim idx =
     (block nblks (GetX idx Dim) (fst Dim), block nblks (GetY idx Dim) (fst (snd Dim)),
      GetZ idx Dim)"

text \<open>
  \<^verbatim>\<open>FThresh\<close> after the first loop: for every block and plane the largest Frobenius norm
  seen, starting from \<^verbatim>\<open>0.0\<close>. The table, which has \<open>nblks \<times> nblks \<times> Dim[2]\<close> entries
  for \<open>nblks \<ge> 1\<close>, is a function of the three indices.
\<close>

definition FThresh_max ::
  "nat \<Rightarrow> nat \<times> nat \<times> nat \<Rightarrow> second_derivatives \<Rightarrow> nat \<times> nat \<times> nat \<Rightarrow> real" where
  "FThresh_max nblks Dim D =
     fold (\<lambda>idx F.
             (let frobnorm = FrobeniusNorm (Hessian_at D idx); k = block_of nblks Dim idx
              in F(k := (if frobnorm > F k then frobnorm else F k))))
       (rev [0..<fst Dim * fst (snd Dim) * snd (snd Dim)]) (\<lambda>k. 0)"

text \<open>\<^verbatim>\<open>FThresh[x][y][z] = sqrt(FThresh[x][y][z]);\<close>\<close>

definition FThresh :: "nat \<Rightarrow> nat \<times> nat \<times> nat \<Rightarrow> second_derivatives \<Rightarrow> nat \<times> nat \<times> nat \<Rightarrow> real" where
  "FThresh nblks Dim D k = sqrt (FThresh_max nblks Dim D k)"

text \<open>
  The mean norm of the six face neighbours of an interior voxel, \<^verbatim>\<open>0.0\<close> for a voxel of
  the boundary.
\<close>

definition frobneigh :: "nat \<times> nat \<times> nat \<Rightarrow> second_derivatives \<Rightarrow> nat \<Rightarrow> real" where
  "frobneigh Dim D idx =
     (case Dim of (d0, d1, d2) \<Rightarrow>
        (let x = GetX idx Dim; y = GetY idx Dim; z = GetZ idx Dim
         in if x > 0 \<and> x < d0 - 1 \<and> y > 0 \<and> y < d1 - 1 \<and> z > 0 \<and> z < d2 - 1 then
              fold (\<lambda>j s. s + Fro (d0 * d1 * d2) D !
                             GetId (nat (int x + ssdx_sort ! j)) (nat (int y + ssdy_sort ! j))
                               (nat (int z + ssdz_sort ! j)) Dim)
                [0..<6] 0 / 6.0
            else 0))"

definition eig_stored_adaptive ::
  "(mat3 \<Rightarrow> triple) \<Rightarrow> nat \<Rightarrow> nat \<times> nat \<times> nat \<Rightarrow> second_derivatives \<Rightarrow> nat \<Rightarrow> triple" where
  "eig_stored_adaptive Diagonalize3x3 nblks Dim D idx =
     (if frobneigh Dim D idx < FThresh nblks Dim D (block_of nblks Dim idx) then (0, 0, 0)
      else eig_first_pass Diagonalize3x3 D idx)"

text \<open>The arrays \<^verbatim>\<open>L1\<close>, \<^verbatim>\<open>L2\<close>, \<^verbatim>\<open>L3\<close> when the block-adaptive routine returns.\<close>

definition GetHessianEigenvaluesDiscreteZDependentThreshold ::
  "(mat3 \<Rightarrow> triple) \<Rightarrow> nat \<Rightarrow> nat \<times> nat \<times> nat \<Rightarrow> second_derivatives \<Rightarrow>
     real list \<times> real list \<times> real list" where
  "GetHessianEigenvaluesDiscreteZDependentThreshold Diagonalize3x3 nblks Dim D =
     (let N = fst Dim * fst (snd Dim) * snd (snd Dim)
      in (map (\<lambda>idx. fst (eig_stored_adaptive Diagonalize3x3 nblks Dim D idx)) [0..<N],
          map (\<lambda>idx. fst (snd (eig_stored_adaptive Diagonalize3x3 nblks Dim D idx))) [0..<N],
          map (\<lambda>idx. snd (snd (eig_stored_adaptive Diagonalize3x3 nblks Dim D idx))) [0..<N]))"

subsection \<open>The noise floor and the ordering of the specification\<close>

text \<open>
  The noise floor in the words of the specification: the square root of the largest
  squared Frobenius norm of the volume.
\<close>

definition spec_noise_floor :: "nat \<Rightarrow> second_derivatives \<Rightarrow> real" where
  "spec_noise_floor N D = sqrt (Max (set (map (\<lambda>f. f\<^sup>2) (Fro N D))))"

text \<open>The ordering invariant of a stored eigenvalue triple.\<close>

definition abs_ordered :: "triple \<Rightarrow> bool" where
  "abs_ordered t = (case t of (l1, l2, l3) \<Rightarrow> \<bar>l1\<bar> \<le> \<bar>l2\<bar> \<and> \<bar>l2\<bar> \<le> \<bar>l3\<bar>)"

subsection \<open>\<^verbatim>\<open>GetVesselness\<close>\<close>

text \<open>The body of the loop over the voxels, with the constants of the routine.\<close>

definition vesselness_voxel :: "real \<Rightarrow> real \<Rightarrow> real \<Rightarrow> real" where
  "vesselness_voxel l1 l2 l3 =
     (let c = 500.0; beta = 0.5; alpha = 0.5;
          std = 2 * c * c; rbd = 2 * beta * beta; rad = 2 * alpha * alpha
      in if l2 < 0 \<and> l3 < 0 then
           (let ra = \<bar>l2\<bar> / \<bar>l3\<bar>; ran = - ra * ra;
                rb = \<bar>l1\<bar> / sqrt (l2 * l3); rbn = - rb * rb;
                st = sqrt (l1 * l1 + l2 * l2 + l3 * l3); stn = - st * st
            in (1 - exp (ran / rad)) * exp (rbn / rbd) * (1 - exp (stn / std)))
         else 0)"

text \<open>
  \<^verbatim>\<open>GetVesselness\<close> after the Hessian routine selected by \<^verbatim>\<open>_adaptive_threshold\<close> has
  filled \<^verbatim>\<open>L1\<close>, \<^verbatim>\<open>L2\<close>, \<^verbatim>\<open>L3\<close>: the result is the new content of \<^verbatim>\<open>L1\<close>.
\<close>

definition GetVesselness :: "nat \<Rightarrow> real list \<times> real list \<times> real list \<Rightarrow> real list" where
  "GetVesselness N L =
     (case L of (L1, L2, L3) \<Rightarrow>
        map (\<lambda>idx. vesselness_voxel (L1 ! idx) (L2 ! idx) (L3 ! idx)) [0..<N])"

text \<open>The response in the words of the specification.\<close>

definition spec_response :: "real \<Rightarrow> real \<Rightarrow> real \<Rightarrow> real" where
  "spec_response l1 l2 l3 =
     (let Ra = \<bar>l2\<bar> / \<bar>l3\<bar>; Rb = \<bar>l1\<bar> / sqrt (l2 * l3); S = sqrt (l1\<^sup>2 + l2\<^sup>2 + l3\<^sup>2);
          \<alpha> = 0.5; \<beta> = 0.5; c = 500
      in (1 - exp (- Ra\<^sup>2 / (2 * \<alpha>\<^sup>2))) * exp (- Rb\<^sup>2 / (2 * \<beta>\<^sup>2)) * (1 - exp (- S\<^sup>2 / (2 * c\<^sup>2))))"

subsection \<open>Multiscale fusion in \<^verbatim>\<open>MultiscaleVesselness\<close> and the scale step of \<^verbatim>\<open>main\<close>\<close>

text \<open>
  \<^verbatim>\<open>_dsigma = (_nsigma>1) ? (_sigmaf-_sigmai) / (_nsigma-1) : _sigmaf;\<close>
\<close>

definition dsigma :: "real \<Rightarrow> real \<Rightarrow> int \<Rightarrow> real" where
  "dsigma sigmai sigmaf nsigma =
     (if nsigma > 1 then (sigmaf - sigmai) / real_of_int (nsigma - 1) else sigmaf)"

text \<open>The inner loop: \<^verbatim>\<open>VSSS\<close> keeps the larger of its value and the new response.\<close>

definition fuse :: "nat \<Rightarrow> real list \<Rightarrow> real list \<Rightarrow> real list" where
  "fuse N AUX1 VSSS =
     map (\<lambda>idx. let vn = AUX1 ! idx; vo = VSSS ! idx in if vn > vo then vn else vo) [0..<N]"

text \<open>
  \<^verbatim>\<open>for (sigma = _sigmai; sigma <= _sigmaf + 0.5*_dsigma; sigma += _dsigma)\<close>.
  The loop does not end when the step is not positive and the first test succeeds, so
  it is a partial function: \<^const>\<open>None\<close> is a run that never leaves the loop.
  \<open>response sigma\<close> is the content of \<^verbatim>\<open>AUX1\<close> after \<^verbatim>\<open>GetVesselness(sigma, ...)\<close>.
\<close>

partial_function (option) scales_loop ::
  "(real \<Rightarrow> real list) \<Rightarrow> nat \<Rightarrow> real \<Rightarrow> real \<Rightarrow> real \<Rightarrow> real list \<Rightarrow> real list option" where
  "scales_loop response N sigmaf ds sigma VSSS =
     (if sigma \<le> sigmaf + 0.5 * ds
      then scales_loop response N sigmaf ds (sigma + ds) (fuse N (response sigma) VSSS)
      else Some VSSS)"

text \<open>
  The vesselness part of \<^verbatim>\<open>MultiscaleVesselness\<close>: \<^verbatim>\<open>VSSS\<close> starts filled with
  \<^verbatim>\<open>0.0\<close>. \<open>hessian sigma\<close> is the content of \<^verbatim>\<open>AUX1, AUX2, AUX3\<close> that the Hessian
  routine leaves for the scale \<open>sigma\<close> (Gaussian smoothing included).
\<close>

definition MultiscaleVesselness_fusion ::
  "(real \<Rightarrow> real list \<times> real list \<times> real list) \<Rightarrow> nat \<Rightarrow> real \<Rightarrow> real \<Rightarrow> int \<Rightarrow> real list option" where
  "MultiscaleVesselness_fusion hessian N sigmai sigmaf nsigma =
     scales_loop (\<lambda>sigma. GetVesselness N (hessian sigma)) N sigmaf
       (dsigma sigmai sigmaf nsigma) sigmai (replicate N 0)"

text \<open>The evenly spaced scales of the specification: \<open>count\<close> values, \<open>step\<close> apart.\<close>

definition spec_scales :: "real \<Rightarrow> real \<Rightarrow> nat \<Rightarrow> real list" where
  "spec_scales sigma_min step count = map (\<lambda>k. sigma_min + real k * step) [0..<count]"

subsection \<open>Images, errors and the conversion to 8 bit\<close>

datatype error = DivisionByZero | NullPointerDereference

datatype scalar_type =
  VTK_CHAR | VTK_UNSIGNED_CHAR | VTK_SHORT | VTK_UNSIGNED_SHORT | VTK_INT | VTK_FLOAT | VTK_DOUBLE

record image =
  ScalarType :: scalar_type
  Dimensions :: "nat \<times> nat \<times> nat"
  Scalars :: "real list"

text \<open>A division of the source, with a zero divisor made visible.\<close>

definition divide :: "real \<Rightarrow> real \<Rightarrow> error + real" where
  "divide a b = (if b = 0 then Inl DivisionByZero else Inr (a / b))"

text \<open>\<^verbatim>\<open>GetRange\<close> of a non-empty array: its smallest and its largest tuple.\<close>

definition GetRange :: "real list \<Rightarrow> real \<times> real" where
  "GetRange xs = (Min (set xs), Max (set xs))"

text \<open>A loop over the tuples that stops at the first failing one.\<close>

fun for_each :: "('a \<Rightarrow> error + 'b) \<Rightarrow> 'a list \<Rightarrow> error + 'b list" where
  "for_each f [] = Inr []"
| "for_each f (x # xs) =
     (case f x of Inl e \<Rightarrow> Inl e
      | Inr y \<Rightarrow> (case for_each f xs of Inl e \<Rightarrow> Inl e | Inr ys \<Rightarrow> Inr (y # ys)))"

definition Convert16To8bit :: "image \<Rightarrow> error + image option" where
  "Convert16To8bit Img =
     (if ScalarType Img = VTK_UNSIGNED_CHAR then Inr (Some Img)
      else if ScalarType Img = VTK_UNSIGNED_SHORT then
        (let range = GetRange (Scalars Img)
         in case for_each (\<lambda>x. divide (255 * (x - fst range)) (snd range - fst range))
                   (Scalars Img) of
              Inl e \<Rightarrow> Inl e
            | Inr ys \<Rightarrow>
                Inr (Some (Img\<lparr>ScalarType := VTK_UNSIGNED_CHAR,
                  Scalars := map (\<lambda>y. real (unat (word_of_int (double_to_int y) :: 8 word))) ys\<rparr>)))
      else Inr None)"

text \<open>A member call through a smart pointer, which is \<^verbatim>\<open>NULL\<close> when \<^const>\<open>None\<close>.\<close>

definition deref :: "'a option \<Rightarrow> error + 'a" where
  "deref p = (case p of None \<Rightarrow> Inl NullPointerDereference | Some x \<Rightarrow> Inr x)"

text \<open>
  \<^verbatim>\<open>MultiscaleVesselness\<close> from the conversion to the start of the vesselness stage,
  with \<^verbatim>\<open>_z_adaptive\<close> off:
  \<^verbatim>\<open>Image = Convert16To8bit(Image); Dim = Image -> GetDimensions();\<close>
  \<^verbatim>\<open>if (!Image) printf("Format not supported.\n");\<close>
  \<^verbatim>\<open>vtkIdType N = Image -> GetNumberOfPoints();\<close>
  The result is what the vesselness stage starts from: the image, \<^verbatim>\<open>Dim\<close>, the lines
  printed and \<^verbatim>\<open>N\<close>.
\<close>

definition MultiscaleVesselness_convert ::
  "image \<Rightarrow> error + image \<times> (nat \<times> nat \<times> nat) \<times> string list \<times> nat" where
  "MultiscaleVesselness_convert Image0 =
     (case Convert16To8bit Image0 of Inl e \<Rightarrow> Inl e
      | Inr Img \<Rightarrow>
         (case deref Img of Inl e \<Rightarrow> Inl e
          | Inr im \<Rightarrow>
             (let Dim = Dimensions im;
                  printed = (if Img = None then [''Format not supported.''] else [])
              in case deref Img of Inl e \<Rightarrow> Inl e
                 | Inr im \<Rightarrow> Inr (im, Dim, printed, length (Scalars im)))))"

subsection \<open>Binarization policies\<close>

text \<open>
  \<^verbatim>\<open>BinarizeAndConvertDoubleToChar\<close>: the content of \<^verbatim>\<open>ScalarsChar\<close>.
\<close>

definition BinarizeAndConvertDoubleToChar :: "real list \<Rightarrow> real \<Rightarrow> error + 8 word list" where
  "BinarizeAndConvertDoubleToChar ScalarsDouble threshold =
     (let range = GetRange ScalarsDouble
      in if threshold > 0 then
           Inr (map (\<lambda>x. if x \<le> threshold then 0 else 255) ScalarsDouble)
         else
           for_each (\<lambda>x. case divide (255 * (x - fst range)) (snd range - fst range) of
                            Inl e \<Rightarrow> Inl e
                          | Inr q \<Rightarrow> Inr (word_of_int (double_to_int q)))
             ScalarsDouble)"

text \<open>The constants of \<^verbatim>\<open><cfloat>\<close> for an IEEE double.\<close>

definition DBL_MAX :: real where
  "DBL_MAX = (2 - 1 / 2 ^ 52) * 2 ^ 1023"

definition DBL_MIN :: real where
  "DBL_MIN = 1 / 2 ^ 1022"

text \<open>
  \<^verbatim>\<open>Image -> FindPoint(point)\<close> at integer coordinates inside the grid, for an image
  with origin \<open>(0,0,0)\<close> and unit spacing: the structured point id.
\<close>

definition FindPoint :: "nat \<times> nat \<times> nat \<Rightarrow> nat \<Rightarrow> nat \<Rightarrow> nat \<Rightarrow> nat" where
  "FindPoint Dim x y z = GetId x y z Dim"

text \<open>The point ids that the loops over \<open>x\<close> and \<open>y\<close> visit in the plane \<open>z\<close>.\<close>

definition plane_ids :: "nat \<times> nat \<times> nat \<Rightarrow> nat \<Rightarrow> nat list" where
  "plane_ids Dim z =
     (case Dim of (d0, d1, d2) \<Rightarrow> [FindPoint Dim x y z. x \<leftarrow> [0..<d0], y \<leftarrow> [0..<d1]])"

text \<open>First pass of \<^verbatim>\<open>BinarizeAndConvertDoubleToCharZAdaptive\<close> over a plane.\<close>

definition z_sum :: "real list \<Rightarrow> nat list \<Rightarrow> real" where
  "z_sum Sc ids = fold (\<lambda>idx s. s + Sc ! idx) ids 0"

definition z_min :: "real list \<Rightarrow> nat list \<Rightarrow> real" where
  "z_min Sc ids = fold (\<lambda>idx m. if Sc ! idx < m then Sc ! idx else m) ids DBL_MAX"

definition z_max :: "real list \<Rightarrow> nat list \<Rightarrow> real" where
  "z_max Sc ids = fold (\<lambda>idx m. if Sc ! idx > m then Sc ! idx else m) ids DBL_MIN"

text \<open>Second pass: the sum of the squared deviations.\<close>

definition var_sum :: "real list \<Rightarrow> nat list \<Rightarrow> real \<Rightarrow> real" where
  "var_sum Sc ids mean = fold (\<lambda>idx s. s + (Sc ! idx - mean) * (Sc ! idx - mean)) ids 0"

text \<open>The threshold of one plane, with its two bound checks in the order of the source.\<close>

definition z_threshold :: "image \<Rightarrow> real \<Rightarrow> nat \<Rightarrow> error + real" where
  "z_threshold Img base_threshold z =
     (let Dim = Dimensions Img; Sc = Scalars Img; ids = plane_ids Dim z;
          z_pixels = fst Dim * fst (snd Dim)
      in case divide (z_sum Sc ids) (real z_pixels) of Inl e \<Rightarrow> Inl e
         | Inr z_mean \<Rightarrow>
            (case divide (var_sum Sc ids z_mean) (real z_pixels) of Inl e \<Rightarrow> Inl e
             | Inr v \<Rightarrow>
                (let z_std = sqrt v;
                     t0 = z_mean + (z_std * base_threshold * 2);
                     t1 = (if t0 > z_max Sc ids then z_max Sc ids * 0.8 else t0);
                     t2 = (if t1 < z_min Sc ids
                           then z_min Sc ids + (z_max Sc ids - z_min Sc ids) * 0.1 else t1)
                 in Inr t2)))"

text \<open>
  Third pass: the voxels of the plane are written to \<^verbatim>\<open>ScalarsChar\<close>, whose tuples are
  \<^const>\<open>None\<close> until they are set.
\<close>

definition apply_threshold ::
  "real list \<Rightarrow> real \<Rightarrow> nat list \<Rightarrow> 8 word option list \<Rightarrow> 8 word option list" where
  "apply_threshold Sc t ids out =
     fold (\<lambda>idx out. out[idx := Some (if Sc ! idx \<le> t then 0 else 255)]) ids out"

fun planes_loop ::
  "image \<Rightarrow> real \<Rightarrow> nat list \<Rightarrow> 8 word option list \<Rightarrow> error + 8 word option list" where
  "planes_loop Img base_threshold [] out = Inr out"
| "planes_loop Img base_threshold (z # zs) out =
     (case z_threshold Img base_threshold z of Inl e \<Rightarrow> Inl e
      | Inr t \<Rightarrow>
          planes_loop Img base_threshold zs
            (apply_threshold (Scalars Img) t (plane_ids (Dimensions Img) z) out))"

definition BinarizeAndConvertDoubleToCharZAdaptive ::
  "image \<Rightarrow> real \<Rightarrow> error + 8 word option list" where
  "BinarizeAndConvertDoubleToCharZAdaptive Img base_threshold =
     planes_loop Img base_threshold [0..<snd (snd (Dimensions Img))]
       (replicate (length (Scalars Img)) None)"

text \<open>
  \<^verbatim>\<open>BinarizeAndConvertDoubleToCharZAdaptiveConservative\<close>. The point ids of the block of
  planes from \<open>z_start\<close> to \<open>z_end - 1\<close>, in the order of the loops.
\<close>

definition block_ids :: "nat \<times> nat \<times> nat \<Rightarrow> nat \<Rightarrow> nat \<Rightarrow> nat list" where
  "block_ids Dim z_start z_end =
     (case Dim of (d0, d1, d2) \<Rightarrow>
        [FindPoint Dim x y z. z \<leftarrow> [z_start..<z_end], x \<leftarrow> [0..<d0], y \<leftarrow> [0..<d1]])"

text \<open>
  The threshold of one block. The passes over the block are the passes of the per-plane
  policy (\<^const>\<open>z_sum\<close>, \<^const>\<open>z_min\<close>, \<^const>\<open>z_max\<close>, \<^const>\<open>var_sum\<close>), here
  over the ids of the block; a block range below \<^verbatim>\<open>1e-6\<close> is replaced by \<^verbatim>\<open>1.0\<close>.
\<close>

definition block_threshold ::
  "image \<Rightarrow> real \<Rightarrow> real \<times> real \<Rightarrow> nat \<Rightarrow> nat \<Rightarrow> error + real" where
  "block_threshold Img base_threshold global_range z_start z_end =
     (let Dim = Dimensions Img; Sc = Scalars Img; ids = block_ids Dim z_start z_end;
          block_min = z_min Sc ids; block_max = z_max Sc ids;
          block_pixels = fst Dim * fst (snd Dim) * (z_end - z_start)
      in case divide (z_sum Sc ids) (real block_pixels) of Inl e \<Rightarrow> Inl e
         | Inr block_mean \<Rightarrow>
      (case divide (var_sum Sc ids block_mean) (real block_pixels) of Inl e \<Rightarrow> Inl e
         | Inr v \<Rightarrow>
      (let block_std = sqrt v;
           block_range = (if block_max - block_min < 0.000001 then 1.0 else block_max - block_min)
       in case divide (block_mean - block_min) block_range of Inl e \<Rightarrow> Inl e
          | Inr brightness_factor \<Rightarrow>
      (case (if block_mean > 0 then divide block_std block_mean else Inr 0.0) of Inl e \<Rightarrow> Inl e
          | Inr cv \<Rightarrow>
      (let is_very_dark_region =
             (block_mean < (snd global_range - fst global_range) * 0.1 \<or> brightness_factor < 0.2);
           adaptive_threshold =
             (if is_very_dark_region then
                (let a0 = block_mean + (block_std * base_threshold * 2.0);
                     a1 = (if block_mean < (snd global_range - fst global_range) * 0.05
                           then block_mean + (block_std * base_threshold * 1.5) else a0);
                     dark_min_threshold = block_min + (block_range * 0.01)
                 in if a1 < dark_min_threshold then dark_min_threshold else a1)
              else
                (let user_threshold_mapped = block_min + (block_range * base_threshold);
                     adj0 = (if cv > 0.5 then block_std * 0.2
                             else if cv < 0.3 then - block_std * 0.1 else 0.0);
                     adaptive_adjustment =
                       (if brightness_factor < 0.5 then adj0 - block_std * 0.1 else adj0)
                 in user_threshold_mapped + adaptive_adjustment));
           min_threshold =
             (if is_very_dark_region then block_min + (block_range * 0.01)
              else block_min + (block_range * (base_threshold * 0.3)));
           max_threshold =
             (if is_very_dark_region then block_mean + (block_std * 3.0)
              else block_min + (block_range * (base_threshold * 3.0)));
           t1 = (if adaptive_threshold < min_threshold then min_threshold else adaptive_threshold);
           t2 = (if t1 > max_threshold then max_threshold else t1)
       in Inr t2)))))"

text \<open>
  \<^verbatim>\<open>for (z_start = 0; z_start < Dim[2]; z_start += z_block_size)\<close>: the loop does not end
  when the block size is 0, so it is a partial function; a division by zero ends it
  with the error.
\<close>

partial_function (option) blocks_loop ::
  "image \<Rightarrow> real \<Rightarrow> real \<times> real \<Rightarrow> nat \<Rightarrow> nat \<Rightarrow> 8 word option list \<Rightarrow>
     (error + 8 word option list) option" where
  "blocks_loop Img base_threshold global_range z_block_size z_start out =
     (let d2 = snd (snd (Dimensions Img))
      in if z_start < d2 then
           (let z_end = (if z_start + z_block_size < d2 then z_start + z_block_size else d2);
                r = block_threshold Img base_threshold global_range z_start z_end
            in if isl r then Some (Inl (projl r))
               else blocks_loop Img base_threshold global_range z_block_size
                      (z_start + z_block_size)
                      (apply_threshold (Scalars Img) (projr r)
                         (block_ids (Dimensions Img) z_start z_end) out))
         else Some (Inr out))"

definition BinarizeAndConvertDoubleToCharZAdaptiveConservative ::
  "image \<Rightarrow> real \<Rightarrow> nat \<Rightarrow> (error + 8 word option list) option" where
  "BinarizeAndConvertDoubleToCharZAdaptiveConservative Img base_threshold z_block_size =
     blocks_loop Img base_threshold (GetRange (Scalars Img)) z_block_size 0
       (replicate (length (Scalars Img)) None)"

text \<open>Clamping into an interval, in the words of the specification.\<close>

definition clamp :: "real \<Rightarrow> real \<Rightarrow> real \<Rightarrow> real" where
  "clamp lo hi x = max lo (min hi x)"

text \<open>
  The statistics of a plane in the words of the specification: its values, their mean
  and their standard deviation.
\<close>

definition plane_values :: "image \<Rightarrow> nat \<Rightarrow> real list" where
  "plane_values Img z = map (\<lambda>idx. Scalars Img ! idx) (plane_ids (Dimensions Img) z)"

definition plane_mean :: "image \<Rightarrow> nat \<Rightarrow> real" where
  "plane_mean Img z = sum_list (plane_values Img z) / real (length (plane_values Img z))"

definition plane_std :: "image \<Rightarrow> nat \<Rightarrow> real" where
  "plane_std Img z =
     sqrt (sum_list (map (\<lambda>v. (v - plane_mean Img z)\<^sup>2) (plane_values Img z))
             / real (length (plane_values Img z)))"

text \<open>The threshold of the specification: \<open>\<mu> + 2 base \<sigma>\<close> clamped into the interval.\<close>

definition spec_plane_threshold :: "image \<Rightarrow> real \<Rightarrow> nat \<Rightarrow> real" where
  "spec_plane_threshold Img base z =
     (let mn = Min (set (plane_values Img z)); mx = Max (set (plane_values Img z))
      in clamp (mn + 0.1 * (mx - mn)) (0.8 * mx)
           (plane_mean Img z + 2 * base * plane_std Img z))"

text \<open>
  The threshold with replacement instead of clamping: a value above the plane maximum
  becomes \<open>0.8 max\<close>, then a value below the plane minimum becomes \<open>min + 0.1 range\<close>,
  and a value between the minimum and the maximum stays.
\<close>

definition replaced_plane_threshold :: "image \<Rightarrow> real \<Rightarrow> nat \<Rightarrow> real" where
  "replaced_plane_threshold Img base z =
     (let mn = Min (set (plane_values Img z)); mx = Max (set (plane_values Img z));
          t0 = plane_mean Img z + 2 * base * plane_std Img z;
          t1 = (if t0 > mx then 0.8 * mx else t0)
      in if t1 < mn then mn + 0.1 * (mx - mn) else t1)"

subsection \<open>The skeleton graph and its attributes\<close>

type_synonym point = "real \<times> real \<times> real"

text \<open>
  The \<^verbatim>\<open>vtkPolyData\<close> of the skeleton: its points, its cells (each the list of its
  point ids) and the point array \<^verbatim>\<open>"Width"\<close>.
\<close>

record skeleton =
  Points :: "point list"
  Cells :: "nat list list"
  Width :: "real list"

record attribute =
  name :: string
  val :: real

text \<open>
  \<^verbatim>\<open>sqrt(pow(r2[0]-r1[0],2)+pow(r2[1]-r1[1],2)+pow(r2[2]-r1[2],2))\<close>
\<close>

definition segment_length :: "point \<Rightarrow> point \<Rightarrow> real" where
  "segment_length r1 r2 =
     (case r1 of (a0, a1, a2) \<Rightarrow> case r2 of (b0, b1, b2) \<Rightarrow>
        sqrt ((b0 - a0)\<^sup>2 + (b1 - a1)\<^sup>2 + (b2 - a2)\<^sup>2))"

text \<open>The first inner loop of \<^verbatim>\<open>EstimateTubuleLength\<close>: the length of one edge.\<close>

definition edge_length :: "point list \<Rightarrow> nat list \<Rightarrow> real" where
  "edge_length P cell =
     fold (\<lambda>n len. len + segment_length (P ! (cell ! (n - 1))) (P ! (cell ! n)))
       [1..<length cell] 0"

text \<open>
  \<^verbatim>\<open>EstimateTubuleLength\<close>: the array \<^verbatim>\<open>"Length"\<close>, whose tuples are \<^const>\<open>None\<close>
  until they are set. The edges are visited from the last to the first.
\<close>

definition EstimateTubuleLength :: "skeleton \<Rightarrow> real option list" where
  "EstimateTubuleLength Skeleton =
     foldr (\<lambda>cell Length.
              fold (\<lambda>n Length. Length[cell ! n := Some (edge_length (Points Skeleton) cell)])
                [0..<length cell] Length)
       (Cells Skeleton) (replicate (length (Points Skeleton)) None)"

text \<open>
  The loops of \<^verbatim>\<open>GetVolumeFromSkeletonLengthAndWidth\<close>: the locals \<^verbatim>\<open>volume\<close> and
  \<^verbatim>\<open>length\<close> when the loops end.
\<close>

definition volume_and_length :: "skeleton \<Rightarrow> real \<times> real" where
  "volume_and_length PolyData =
     foldr (\<lambda>cell acc.
              fold (\<lambda>n acc.
                      (let r1 = Points PolyData ! (cell ! (n - 1));
                           r2 = Points PolyData ! (cell ! n);
                           R1 = 0.5 * Width PolyData ! (cell ! (n - 1));
                           R2 = 0.5 * Width PolyData ! (cell ! n);
                           h = segment_length r1 r2
                       in (fst acc + 3.141592 / 3.0 * h * (R1 * R1 + R2 * R2 + R1 * R2),
                           snd acc + h)))
                [1..<length cell] acc)
       (Cells PolyData) (0, 0)"

text \<open>
  The attributes that the routine appends; \<open>rad\<close> is the global \<^verbatim>\<open>_rad\<close>, the average
  tubule radius of the command line (0.150 when not given).
\<close>

definition GetVolumeFromSkeletonLengthAndWidth ::
  "skeleton \<Rightarrow> real \<Rightarrow> attribute list \<Rightarrow> attribute list" where
  "GetVolumeFromSkeletonLengthAndWidth PolyData rad attributes =
     (let len = snd (volume_and_length PolyData)
      in attributes @
           [\<lparr>name = ''Total length (um)'', val = len\<rparr>,
            \<lparr>name = ''Volume from length (um3)'', val = len * (arccos (- 1) * rad\<^sup>2)\<rparr>])"

subsection \<open>\<^verbatim>\<open>ConnectSkeletonFragments\<close>\<close>

text \<open>
  \<^verbatim>\<open>GetPointCells\<close> after \<^verbatim>\<open>BuildLinks\<close>: the ids of the cells that use the point, one
  entry for each use.
\<close>

definition GetPointCells :: "skeleton \<Rightarrow> nat \<Rightarrow> nat list" where
  "GetPointCells S pointId =
     [c. c \<leftarrow> [0..<length (Cells S)], q \<leftarrow> Cells S ! c, q = pointId]"

definition degree :: "skeleton \<Rightarrow> nat \<Rightarrow> nat" where
  "degree S pointId =
     length [i \<leftarrow> GetPointCells S pointId.
               hd (Cells S ! i) = pointId \<or> last (Cells S ! i) = pointId]"

definition endpoints :: "skeleton \<Rightarrow> nat list" where
  "endpoints S = [pointId \<leftarrow> [0..<length (Points S)]. degree S pointId = 1]"

text \<open>The test that marks a pair of end points for connection.\<close>

definition within_gap :: "skeleton \<Rightarrow> real \<Rightarrow> nat \<Rightarrow> nat \<Rightarrow> bool" where
  "within_gap S max_gap_distance point1 point2 =
     (let distance = segment_length (Points S ! point1) (Points S ! point2)
      in distance \<le> max_gap_distance \<and> distance > 0.1)"

definition connections_to_add :: "skeleton \<Rightarrow> real \<Rightarrow> (nat \<times> nat) list" where
  "connections_to_add S max_gap_distance =
     (let e = endpoints S
      in [(e ! i, e ! j). i \<leftarrow> [0..<length e], j \<leftarrow> [i + 1..<length e],
            within_gap S max_gap_distance (e ! i) (e ! j)])"

text \<open>The result keeps the points and the cells, and gets one line for each connection.\<close>

definition ConnectSkeletonFragments :: "skeleton \<Rightarrow> real \<Rightarrow> skeleton" where
  "ConnectSkeletonFragments Skeleton max_gap_distance =
     Skeleton\<lparr>Cells := Cells Skeleton @
       map (\<lambda>connection. [fst connection, snd connection])
         (connections_to_add Skeleton max_gap_distance)\<rparr>"

subsection \<open>Concrete inputs\<close>

text \<open>
  For a diagonal matrix the eigenvalues are the diagonal entries; the concrete runs
  below use diagonal Hessians and this instance of \<^verbatim>\<open>vtkMath::Diagonalize3x3\<close>.
\<close>

definition diagonal_entries :: "mat3 \<Rightarrow> triple" where
  "diagonal_entries H = (H 0 0, H 1 1, H 2 2)"

text \<open>Two voxels whose Hessians are \<open>diag (-4, 0, 0)\<close> and \<open>diag (-3, 0, 0)\<close>.\<close>

definition two_voxels :: second_derivatives where
  "two_voxels =
     \<lparr>Dxx = [- 4, - 3], Dyy = [0, 0], Dzz = [0, 0], Dxy = [0, 0], Dxz = [0, 0], Dyz = [0, 0]\<rparr>"

text \<open>A one-voxel volume whose eigenvalues at the scale \<open>sigma\<close> are \<open>0, -sigma, -sigma\<close>.\<close>

definition one_voxel_hessian :: "real \<Rightarrow> real list \<times> real list \<times> real list" where
  "one_voxel_hessian sigma = ([0], [- sigma], [- sigma])"

text \<open>A 32-bit floating point volume of two voxels.\<close>

definition float_image :: image where
  "float_image = \<lparr>ScalarType = VTK_FLOAT, Dimensions = (2, 1, 1), Scalars = [3, 7]\<rparr>"

text \<open>A plane of two voxels with the values 0 and 10.\<close>

definition two_voxel_plane :: image where
  "two_voxel_plane = \<lparr>ScalarType = VTK_DOUBLE, Dimensions = (2, 1, 1), Scalars = [0, 10]\<rparr>"

text \<open>A straight edge of length 1 between two points of width 1.\<close>

definition straight_edge :: skeleton where
  "straight_edge = \<lparr>Points = [(0, 0, 0), (1, 0, 0)], Cells = [[0, 1]], Width = [1, 1]\<rparr>"

text \<open>
  Two edges of length 1 on a line; the end of the first and the start of the second
  are at the same place.
\<close>

definition two_fragments :: skeleton where
  "two_fragments =
     \<lparr>Points = [(0, 0, 0), (1, 0, 0), (1, 0, 0), (2, 0, 0)],
      Cells = [[0, 1], [2, 3]], Width = [1, 1, 1, 1]\<rparr>"

section \<open>Properties\<close>

subsection \<open>Eigenvalue ordering\<close>

lemma Sort_abs_ordered: "abs_ordered (Sort t)"
  by (cases t) (simp add: Sort_def Swap_def abs_ordered_def)

lemma zero_abs_ordered: "abs_ordered (0, 0, 0)"
  by (simp add: abs_ordered_def)

lemma eig_first_pass_ordered: "abs_ordered (eig_first_pass dg D idx)"
  by (simp add: eig_first_pass_def Let_def Sort_abs_ordered zero_abs_ordered)

lemma eig_stored_ordered: "abs_ordered (eig_stored dg N D idx)"
  by (simp add: eig_stored_def eig_first_pass_ordered zero_abs_ordered)

lemma nth_GetHessian:
  "idx < N \<Longrightarrow> GetHessianEigenvaluesDiscrete dg N D = (L1, L2, L3) \<Longrightarrow>
     (L1 ! idx, L2 ! idx, L3 ! idx) = eig_stored dg N D idx"
  by (auto simp: GetHessianEigenvaluesDiscrete_def)

lemma eig_stored_adaptive_ordered: "abs_ordered (eig_stored_adaptive dg nblks Dim D idx)"
  by (simp add: eig_stored_adaptive_def eig_first_pass_ordered zero_abs_ordered)

lemma nth_GetHessian_adaptive:
  "idx < d0 * d1 * d2 \<Longrightarrow>
     GetHessianEigenvaluesDiscreteZDependentThreshold dg nblks (d0, d1, d2) D = (M1, M2, M3) \<Longrightarrow>
     (M1 ! idx, M2 ! idx, M3 ! idx) = eig_stored_adaptive dg nblks (d0, d1, d2) D idx"
  by (auto simp: GetHessianEigenvaluesDiscreteZDependentThreshold_def Let_def)

text \<open>The run of the Hessian routine on \<^const>\<open>two_voxels\<close>.\<close>

lemma upt_2: "[0..<2] = [0, Suc 0]"
  by (simp add: numeral_2_eq_2)

lemma Fro_two_voxels: "Fro 2 two_voxels = [4, 3]"
  by (simp add: Fro_def FrobeniusNorm_def Hessian_at_def two_voxels_def numeral_2_eq_2)

lemma ftresh_two_voxels: "ftresh 2 two_voxels = 2"
  by (simp add: ftresh_def Fro_two_voxels)

lemma spec_floor_two_voxels: "spec_noise_floor 2 two_voxels = 4"
  by (simp add: spec_noise_floor_def Fro_two_voxels)

lemma eig_first_pass_two_voxels:
  "eig_first_pass diagonal_entries two_voxels 0 = (0, 0, - 4)"
  "eig_first_pass diagonal_entries two_voxels (Suc 0) = (0, 0, - 3)"
  by (simp_all add: eig_first_pass_def Hessian_at_def two_voxels_def diagonal_entries_def
      Sort_def Swap_def)

lemma eig_stored_two_voxels:
  "eig_stored diagonal_entries 2 two_voxels 0 = (0, 0, - 4)"
  "eig_stored diagonal_entries 2 two_voxels (Suc 0) = (0, 0, - 3)"
  by (simp_all add: eig_stored_def ftresh_two_voxels Fro_two_voxels eig_first_pass_two_voxels)

lemma Hessian_two_voxels:
  "GetHessianEigenvaluesDiscrete diagonal_entries 2 two_voxels = ([0, 0], [0, 0], [- 4, - 3])"
  by (simp add: GetHessianEigenvaluesDiscrete_def upt_2 eig_stored_two_voxels)

text \<open>
  The block-adaptive routine on the same two voxels, as a volume of dimensions
  \<open>2 \<times> 1 \<times> 1\<close> with one block: both voxels are on the boundary, so their
  neighbour mean is 0, below the floor 2 of their block.
\<close>

lemma FThresh_two_voxels: "FThresh (Suc 0) (2, Suc 0, Suc 0) two_voxels (0, 0, 0) = 2"
  by (simp add: FThresh_def FThresh_max_def upt_2 block_of_def block_def double_to_int_def
      GetX_def GetY_def GetZ_def FrobeniusNorm_def Hessian_at_def two_voxels_def)

lemma eig_stored_adaptive_two_voxels:
  "eig_stored_adaptive diagonal_entries (Suc 0) (2, Suc 0, Suc 0) two_voxels 0 = (0, 0, 0)"
  "eig_stored_adaptive diagonal_entries (Suc 0) (2, Suc 0, Suc 0) two_voxels (Suc 0) = (0, 0, 0)"
  by (simp_all add: eig_stored_adaptive_def frobneigh_def block_of_def block_def
      double_to_int_def GetX_def GetY_def GetZ_def FThresh_two_voxels)

lemma Hessian_adaptive_two_voxels:
  "GetHessianEigenvaluesDiscreteZDependentThreshold diagonal_entries (Suc 0) (2, Suc 0, Suc 0)
     two_voxels = ([0, 0], [0, 0], [0, 0])"
  by (simp add: GetHessianEigenvaluesDiscreteZDependentThreshold_def upt_2
      eig_stored_adaptive_two_voxels)

text \<open>
  Claim C8. \<^verbatim>\<open>Sort\<close> puts every real triple in ascending order of absolute value, and
  for every voxel the triple that \<^verbatim>\<open>GetHessianEigenvaluesDiscrete\<close> stores satisfies
  \<open>|l1| \<le> |l2| \<le> |l3|\<close>; where the trace is not negative or the norm is below the noise
  floor the stored triple is all zeros, which is ordered too. The triples that the
  block-adaptive routine stores are ordered in the same way.
\<close>

theorem eigenvalues_sorted_by_abs:
  "(case Sort (a, b, c) of (l1, l2, l3) \<Rightarrow> \<bar>l1\<bar> \<le> \<bar>l2\<bar> \<and> \<bar>l2\<bar> \<le> \<bar>l3\<bar>) \<and>
   (idx < N \<longrightarrow> GetHessianEigenvaluesDiscrete dg N D = (L1, L2, L3) \<longrightarrow>
      \<bar>L1 ! idx\<bar> \<le> \<bar>L2 ! idx\<bar> \<and> \<bar>L2 ! idx\<bar> \<le> \<bar>L3 ! idx\<bar> \<and>
      (Hessian_at D idx 0 0 + Hessian_at D idx 1 1 + Hessian_at D idx 2 2 \<ge> 0 \<or>
       Fro N D ! idx < ftresh N D \<longrightarrow> (L1 ! idx, L2 ! idx, L3 ! idx) = (0, 0, 0))) \<and>
   (idx < d0 * d1 * d2 \<longrightarrow>
      GetHessianEigenvaluesDiscreteZDependentThreshold dg nblks (d0, d1, d2) D = (M1, M2, M3) \<longrightarrow>
      \<bar>M1 ! idx\<bar> \<le> \<bar>M2 ! idx\<bar> \<and> \<bar>M2 ! idx\<bar> \<le> \<bar>M3 ! idx\<bar>)"
proof -
  have s: "abs_ordered (Sort (a, b, c))" by (rule Sort_abs_ordered)
  have "abs_ordered (M1 ! idx, M2 ! idx, M3 ! idx)"
    if "idx < d0 * d1 * d2"
      "GetHessianEigenvaluesDiscreteZDependentThreshold dg nblks (d0, d1, d2) D = (M1, M2, M3)"
    using nth_GetHessian_adaptive [OF that] eig_stored_adaptive_ordered [of dg nblks _ D idx]
    by simp
  moreover
  have "abs_ordered (L1 ! idx, L2 ! idx, L3 ! idx)"
    if "idx < N" "GetHessianEigenvaluesDiscrete dg N D = (L1, L2, L3)"
    using nth_GetHessian [OF that] eig_stored_ordered [of dg N D idx] by simp
  moreover have "(L1 ! idx, L2 ! idx, L3 ! idx) = (0, 0, 0)"
    if "idx < N" "GetHessianEigenvaluesDiscrete dg N D = (L1, L2, L3)"
       "Hessian_at D idx 0 0 + Hessian_at D idx 1 1 + Hessian_at D idx 2 2 \<ge> 0 \<or>
        Fro N D ! idx < ftresh N D"
    using nth_GetHessian [OF that(1,2)] that(3)
    by (auto simp: eig_stored_def eig_first_pass_def Let_def)
  ultimately show ?thesis using s by (auto simp: abs_ordered_def)
qed

theorem eigenvalues_sorted_by_abs_witness:
  "(1::nat) < 2 \<and>
   GetHessianEigenvaluesDiscrete diagonal_entries 2 two_voxels = ([0, 0], [0, 0], [- 4, - 3]) \<and>
   (1::nat) < 2 * 1 * 1 \<and>
   GetHessianEigenvaluesDiscreteZDependentThreshold diagonal_entries 1 (2, 1, 1) two_voxels =
     ([0, 0], [0, 0], [0, 0]) \<and>
   \<bar>[0, 0] ! 1\<bar> \<le> \<bar>[0, 0::real] ! 1\<bar> \<and> \<bar>[0, 0] ! 1\<bar> \<le> \<bar>[- 4, - 3::real] ! 1\<bar> \<and>
   Sort (5, - 1, 3) = (- 1, 3, 5)"
  using eigenvalues_sorted_by_abs
    [of 5 "- 1" 3 1 2 diagonal_entries two_voxels "[0, 0]" "[0, 0]" "[- 4, - 3]" 2 1 1 1
      "[0, 0]" "[0, 0]" "[0, 0]"]
    Hessian_two_voxels Hessian_adaptive_two_voxels
  by (simp add: Sort_def Swap_def)

subsection \<open>Vesselness response\<close>

lemma vesselness_voxel_spec:
  "vesselness_voxel l1 l2 l3 = (if l2 < 0 \<and> l3 < 0 then spec_response l1 l2 l3 else 0)"
  by (simp add: vesselness_voxel_def spec_response_def Let_def power2_eq_square)

text \<open>
  Claim C1. For every voxel, and whatever the scale that produced the eigenvalue arrays,
  the response that \<^verbatim>\<open>GetVesselness\<close> stores is the formula of the specification with
  \<open>\<alpha> = \<beta> = 0.5\<close> and \<open>c = 500\<close> when \<open>l2 < 0\<close> and \<open>l3 < 0\<close>, and is \<open>0\<close> when
  \<open>l2 \<ge> 0\<close> or \<open>l3 \<ge> 0\<close>.
\<close>

theorem vesselness_response_formula:
  "idx < N \<Longrightarrow>
     GetVesselness N (L1, L2, L3) ! idx =
       (if L2 ! idx < 0 \<and> L3 ! idx < 0
        then spec_response (L1 ! idx) (L2 ! idx) (L3 ! idx) else 0) \<and>
     (L2 ! idx \<ge> 0 \<or> L3 ! idx \<ge> 0 \<longrightarrow> GetVesselness N (L1, L2, L3) ! idx = 0)"
  by (auto simp: GetVesselness_def vesselness_voxel_spec)

theorem vesselness_response_formula_witness:
  "(0::nat) < 2 \<and>
   GetVesselness 2 ([0, 0], [- 1, 1], [- 1, - 1]) ! 0 =
     (1 - exp (- 2)) * (1 - exp (- (1 / 250000))) \<and>
   GetVesselness 2 ([0, 0], [- 1, 1], [- 1, - 1]) ! 1 = 0"
  using vesselness_response_formula [of 0 2 "[0, 0]" "[- 1, 1]" "[- 1, - 1]"]
    vesselness_response_formula [of 1 2 "[0, 0]" "[- 1, 1]" "[- 1, - 1]"]
  by (simp add: spec_response_def power2_eq_square)

subsection \<open>Noise floor\<close>

lemma FrobeniusNorm_sum:
  "FrobeniusNorm M = sqrt (\<Sum>i<3. \<Sum>j<3. (M i j)\<^sup>2)"
  by (simp add: FrobeniusNorm_def numeral_3_eq_3 numeral_2_eq_2 power2_eq_square
      add.assoc add.commute add.left_commute)

lemma Fro_nonneg: "f \<in> set (Fro N D) \<Longrightarrow> 0 \<le> f"
  by (auto simp: Fro_def FrobeniusNorm_def)

lemma Max_squares:
  assumes "finite S" "S \<noteq> {}" "\<forall>f\<in>S. (0::real) \<le> f"
  shows "Max ((\<lambda>f. f\<^sup>2) ` S) = (Max S)\<^sup>2"
proof (rule Max_eqI)
  show "finite ((\<lambda>f. f\<^sup>2) ` S)" using assms by simp
  show "(Max S)\<^sup>2 \<in> (\<lambda>f. f\<^sup>2) ` S" using assms by (simp add: Max_in)
  fix y assume "y \<in> (\<lambda>f. f\<^sup>2) ` S"
  then obtain f where f: "f \<in> S" "y = f\<^sup>2" by auto
  then have "f \<le> Max S" using assms by simp
  moreover have "0 \<le> f" using f assms by simp
  ultimately show "y \<le> (Max S)\<^sup>2" using f by (simp add: power_mono)
qed

lemma spec_noise_floor_Max:
  assumes "0 < N"
  shows "spec_noise_floor N D = Max (set (Fro N D))"
proof -
  have ne: "set (Fro N D) \<noteq> {}" using assms by (simp add: Fro_def)
  have nn: "\<forall>f\<in>set (Fro N D). 0 \<le> f" using Fro_nonneg by blast
  have "Max (set (Fro N D)) \<in> set (Fro N D)" using ne by (intro Max_in) simp_all
  then have "0 \<le> Max (set (Fro N D))" using nn by blast
  then show ?thesis
    using Max_squares [OF _ ne nn] by (simp add: spec_noise_floor_def)
qed

text \<open>
  Claim C2, as stated, fails. With Hessians of Frobenius norm 4 and 3 the square root of
  the largest squared norm is 4, the floor of the code is 2, and the voxel of norm 3,
  which is below 4, keeps its eigenvalue \<open>-3\<close>.
\<close>

theorem noise_floor_not_max_norm:
  "ftresh 2 two_voxels = 2 \<and> spec_noise_floor 2 two_voxels = 4 \<and>
   Fro 2 two_voxels ! 1 < spec_noise_floor 2 two_voxels \<and>
   snd (snd (GetHessianEigenvaluesDiscrete diagonal_entries 2 two_voxels)) ! 1 = - 3"
  by (simp add: ftresh_two_voxels spec_floor_two_voxels Fro_two_voxels Hessian_two_voxels)

text \<open>
  Claim C2, amended. In the non-adaptive Hessian estimator the global noise floor is
  the square root of the largest Frobenius norm of the volume (the norm being itself the
  square root of the sum of the squared entries), that is the square root of the value
  the claim names; every voxel whose Frobenius norm is below that floor has its three
  eigenvalues set to zero.
\<close>

theorem noise_floor_sqrt_of_max_norm:
  assumes "0 < N" and "GetHessianEigenvaluesDiscrete dg N D = (L1, L2, L3)"
  shows "ftresh N D =
           sqrt (Max (set (map (\<lambda>idx. sqrt (\<Sum>i<3. \<Sum>j<3. (Hessian_at D idx i j)\<^sup>2))
                        [0..<N]))) \<and>
         ftresh N D = sqrt (spec_noise_floor N D) \<and>
         (\<forall>idx<N. Fro N D ! idx < ftresh N D \<longrightarrow>
            L1 ! idx = 0 \<and> L2 ! idx = 0 \<and> L3 ! idx = 0)"
proof -
  have "ftresh N D =
           sqrt (Max (set (map (\<lambda>idx. sqrt (\<Sum>i<3. \<Sum>j<3. (Hessian_at D idx i j)\<^sup>2))
                        [0..<N])))"
    by (simp add: ftresh_def Fro_def FrobeniusNorm_sum)
  moreover have "ftresh N D = sqrt (spec_noise_floor N D)"
    using spec_noise_floor_Max [OF assms(1)] by (simp add: ftresh_def)
  moreover have "L1 ! idx = 0 \<and> L2 ! idx = 0 \<and> L3 ! idx = 0"
    if "idx < N" "Fro N D ! idx < ftresh N D" for idx
    using nth_GetHessian [OF that(1) assms(2)] that(2) by (simp add: eig_stored_def)
  ultimately show ?thesis by blast
qed

theorem noise_floor_sqrt_of_max_norm_witness:
  "(0::nat) < 2 \<and>
   GetHessianEigenvaluesDiscrete diagonal_entries 2 two_voxels = ([0, 0], [0, 0], [- 4, - 3]) \<and>
   ftresh 2 two_voxels = sqrt (spec_noise_floor 2 two_voxels) \<and> ftresh 2 two_voxels = 2"
  using noise_floor_sqrt_of_max_norm
    [of 2 diagonal_entries two_voxels "[0, 0]" "[0, 0]" "[- 4, - 3]"] Hessian_two_voxels
  by (simp add: ftresh_two_voxels)

subsection \<open>Multiscale fusion\<close>

lemma spec_scales_Suc:
  "spec_scales s d (Suc m) = s # spec_scales (s + d) d m"
proof -
  have "[0..<Suc m] = 0 # map Suc [0..<m]"
    by (simp add: upt_conv_Cons map_Suc_upt del: upt_Suc)
  then show ?thesis
    by (simp add: spec_scales_def comp_def algebra_simps del: upt_Suc)
qed

lemma scales_loop_unroll:
  assumes "\<forall>k<m. s + real k * d \<le> sf + 0.5 * d" and "\<not> s + real m * d \<le> sf + 0.5 * d"
  shows "scales_loop r N sf d s V = Some (fold (\<lambda>s V. fuse N (r s) V) (spec_scales s d m) V)"
  using assms
proof (induction m arbitrary: s V)
  case 0
  then show ?case by (subst scales_loop.simps) (simp add: spec_scales_def)
next
  case (Suc m)
  from Suc.prems(1) have first: "s \<le> sf + 0.5 * d" by force
  have "\<forall>k<m. (s + d) + real k * d \<le> sf + 0.5 * d"
  proof (intro allI impI)
    fix k assume "k < m"
    then have "s + real (Suc k) * d \<le> sf + 0.5 * d" using Suc.prems(1) by blast
    then show "(s + d) + real k * d \<le> sf + 0.5 * d" by (simp add: algebra_simps)
  qed
  moreover have "\<not> (s + d) + real m * d \<le> sf + 0.5 * d"
    using Suc.prems(2) by (simp add: algebra_simps)
  ultimately have "scales_loop r N sf d (s + d) (fuse N (r s) V) =
      Some (fold (\<lambda>s V. fuse N (r s) V) (spec_scales (s + d) d m) (fuse N (r s) V))"
    by (rule Suc.IH)
  then show ?case using first
    by (subst scales_loop.simps) (simp add: spec_scales_Suc)
qed

lemma length_fuse: "length (fuse N a V) = N"
  by (simp add: fuse_def)

lemma nth_fuse: "idx < N \<Longrightarrow> fuse N a V ! idx = max (a ! idx) (V ! idx)"
  by (simp add: fuse_def Let_def max_def)

lemma length_fold_fuse:
  "length V = N \<Longrightarrow> length (fold (\<lambda>s V. fuse N (r s) V) ss V) = N"
  by (induction ss arbitrary: V) (simp_all add: length_fuse)

lemma nth_fold_fuse:
  "idx < N \<Longrightarrow>
     fold (\<lambda>s V. fuse N (r s) V) ss V ! idx = fold (\<lambda>s m. max (r s ! idx) m) ss (V ! idx)"
  by (induction ss arbitrary: V) (simp_all add: nth_fuse)

lemma fold_max_Max:
  "fold (\<lambda>s m. max (f s) m) ss (m0::real) = Max (insert m0 (f ` set ss))"
proof (induction ss arbitrary: m0)
  case Nil
  then show ?case by simp
next
  case (Cons a ss)
  have "Max (insert (max (f a) m0) (f ` set ss)) = Max (insert m0 (insert (f a) (f ` set ss)))"
    by (cases "set ss = {}") (simp_all add: max.commute max.left_commute max.assoc)
  then show ?case using Cons.IH [of "max (f a) m0"] by simp
qed

lemma vesselness_voxel_nonneg: "0 \<le> vesselness_voxel l1 l2 l3"
proof (cases "l2 < 0 \<and> l3 < 0")
  case True
  define ra where "ra = \<bar>l2\<bar> / \<bar>l3\<bar>"
  define rb where "rb = \<bar>l1\<bar> / sqrt (l2 * l3)"
  define st where "st = sqrt (l1 * l1 + l2 * l2 + l3 * l3)"
  have a: "0 \<le> 1 - exp (- ra * ra / (2 * (1 / 2) * (1 / 2)))" by simp
  have c: "0 \<le> 1 - exp (- st * st / (2 * 500 * 500))" by simp
  have b: "0 \<le> exp (- rb * rb / (2 * (1 / 2) * (1 / 2)))" by simp
  have "0 \<le> (1 - exp (- ra * ra / (2 * (1 / 2) * (1 / 2)))) *
      exp (- rb * rb / (2 * (1 / 2) * (1 / 2))) * (1 - exp (- st * st / (2 * 500 * 500)))"
    by (intro mult_nonneg_nonneg a b c)
  then show ?thesis using True
    by (simp add: vesselness_voxel_def Let_def ra_def rb_def st_def)
next
  case False
  then show ?thesis by (auto simp: vesselness_voxel_def Let_def)
qed

lemma GetVesselness_nonneg: "idx < N \<Longrightarrow> 0 \<le> GetVesselness N L ! idx"
  by (cases L) (simp add: GetVesselness_def vesselness_voxel_nonneg)

lemma fusion_result:
  assumes "\<forall>k<m. si + real k * dsigma si sf n \<le> sf + 0.5 * dsigma si sf n"
    and "\<not> si + real m * dsigma si sf n \<le> sf + 0.5 * dsigma si sf n"
    and "idx < N"
  shows "\<exists>V. MultiscaleVesselness_fusion hessian N si sf n = Some V \<and> length V = N \<and>
           V ! idx = Max (insert 0 ((\<lambda>s. GetVesselness N (hessian s) ! idx) `
                       set (spec_scales si (dsigma si sf n) m)))"
proof -
  let ?r = "\<lambda>s. GetVesselness N (hessian s)"
  let ?ss = "spec_scales si (dsigma si sf n) m"
  let ?V = "fold (\<lambda>s V. fuse N (?r s) V) ?ss (replicate N 0)"
  have "MultiscaleVesselness_fusion hessian N si sf n = Some ?V"
    unfolding MultiscaleVesselness_fusion_def by (rule scales_loop_unroll [OF assms(1,2)])
  moreover have "length ?V = N" by (simp add: length_fold_fuse)
  moreover have "?V ! idx = Max (insert 0 ((\<lambda>s. ?r s ! idx) ` set ?ss))"
    using assms(3) by (simp add: nth_fold_fuse fold_max_Max)
  ultimately show ?thesis by blast
qed

lemma even_scales:
  assumes "1 < n" "si < sf"
  shows "(\<forall>k<nat n. si + real k * dsigma si sf n \<le> sf + 0.5 * dsigma si sf n) \<and>
         \<not> si + real (nat n) * dsigma si sf n \<le> sf + 0.5 * dsigma si sf n"
proof -
  define d where "d = dsigma si sf n"
  have n1: "0 < real_of_int n - 1" using assms(1) by simp
  have d: "d = (sf - si) / (real_of_int n - 1)" using assms(1) by (simp add: d_def dsigma_def)
  then have dpos: "0 < d" using assms n1 by simp
  have span: "(real_of_int n - 1) * d = sf - si" using d n1 by simp
  have rn: "real (nat n) = real_of_int n" using assms(1) by simp
  have "si + real k * d \<le> sf + 0.5 * d" if "k < nat n" for k
  proof -
    have "real k \<le> real_of_int n - 1" using that assms(1) by linarith
    then have "real k * d \<le> (real_of_int n - 1) * d" using dpos by (simp add: mult_right_mono)
    then show ?thesis using span dpos by simp
  qed
  moreover have "\<not> si + real (nat n) * d \<le> sf + 0.5 * d"
  proof -
    have "real (nat n) * d = (sf - si) + d" using span rn by (simp add: algebra_simps)
    then show ?thesis using dpos by simp
  qed
  ultimately show ?thesis unfolding d_def by blast
qed

lemma positive_step_count:
  assumes "0 < d"
  shows "(\<forall>k<(if s \<le> b then Suc (nat \<lfloor>(b - s) / d\<rfloor>) else 0). (s::real) + real k * d \<le> b) \<and>
         \<not> s + real (if s \<le> b then Suc (nat \<lfloor>(b - s) / d\<rfloor>) else 0) * d \<le> b"
proof (cases "s \<le> b")
  case False
  then show ?thesis by simp
next
  case True
  define m where "m = Suc (nat \<lfloor>(b - s) / d\<rfloor>)"
  have q: "0 \<le> (b - s) / d" using True assms by simp
  have "s + real k * d \<le> b" if "k < m" for k
  proof -
    have "real k \<le> real (nat \<lfloor>(b - s) / d\<rfloor>)" using that by (simp add: m_def)
    also have "\<dots> = real_of_int \<lfloor>(b - s) / d\<rfloor>" using q by simp
    also have "\<dots> \<le> (b - s) / d" by simp
    finally have "real k * d \<le> b - s" using assms by (simp add: pos_le_divide_eq)
    then show ?thesis by simp
  qed
  moreover have "\<not> s + real m * d \<le> b"
  proof -
    have "(b - s) / d < real_of_int \<lfloor>(b - s) / d\<rfloor> + 1" by linarith
    also have "\<dots> = real m" using q by (simp add: m_def)
    finally have "b - s < real m * d" using assms by (simp add: pos_divide_less_eq)
    then show ?thesis by simp
  qed
  ultimately show ?thesis using True unfolding m_def by simp
qed

lemma Max_insert_zero:
  assumes "finite S" "S \<noteq> {}" "\<forall>x\<in>S. (0::real) \<le> x"
  shows "Max (insert 0 S) = Max S"
proof -
  have "Max S \<in> S" using assms by simp
  then have "0 \<le> Max S" using assms by blast
  then show ?thesis using assms by (simp add: max_def)
qed

text \<open>
  With a step that is not positive the loop never ends once its first test succeeds;
  this is the case of \<open>count > 1\<close> with \<open>\<sigma>_min = \<sigma>_max\<close>, where the step is 0.
\<close>

lemma scales_loop_Some_positive:
  assumes "scales_loop r N sf d s V = Some y"
  shows "d \<le> 0 \<longrightarrow> sf + 0.5 * d < s"
proof (rule scales_loop.raw_induct
    [where P = "\<lambda>response N sigmaf ds sigma VSSS y. ds \<le> 0 \<longrightarrow> sigmaf + 0.5 * ds < sigma",
     OF _ assms], goal_cases)
  case (1 scales_loop' response N sigmaf ds sigma VSSS y)
  show ?case
  proof (cases "sigma \<le> sigmaf + 0.5 * ds")
    case True
    with 1(2) have "scales_loop' response N sigmaf ds (sigma + ds) (fuse N (response sigma) VSSS) = Some y"
      by simp
    from 1(1) [OF this] show ?thesis using True by auto
  next
    case False
    then show ?thesis by simp
  qed
qed

lemma scales_loop_never_ends:
  "d \<le> 0 \<Longrightarrow> s \<le> sf + 0.5 * d \<Longrightarrow> scales_loop r N sf d s V = None"
  using scales_loop_Some_positive [of r N sf d s V] by (cases "scales_loop r N sf d s V") auto

lemma equal_scales_never_end:
  "1 < n \<Longrightarrow> MultiscaleVesselness_fusion hessian N s s n = None"
  unfolding MultiscaleVesselness_fusion_def
  by (rule scales_loop_never_ends) (simp_all add: dsigma_def)

text \<open>
  The responses of \<^const>\<open>one_voxel_hessian\<close>, and the run with \<open>count = 1\<close>,
  \<open>\<sigma>_min = 1\<close> and \<open>\<sigma>_max = 2\<close>: the step is 2 and the loop runs the scales 1 and 3.
\<close>

lemma response_one_voxel:
  "GetVesselness 1 (one_voxel_hessian s) ! 0 =
     (if 0 < s then (1 - exp (- 2)) * (1 - exp (- (s * s / 250000))) else 0)"
proof (cases "0 < s")
  case True
  then have "sqrt (s * s + s * s) * sqrt (s * s + s * s) = 2 * (s * s)"
    by (simp add: real_sqrt_mult_self)
  then show ?thesis using True
    by (simp add: GetVesselness_def one_voxel_hessian_def vesselness_voxel_def Let_def)
next
  case False
  then show ?thesis
    by (simp add: GetVesselness_def one_voxel_hessian_def vesselness_voxel_def Let_def)
qed

lemma response_1_less_3:
  "(1 - exp (- 2)) * (1 - exp (- (1 / 250000))) <
   (1 - exp (- 2)) * (1 - exp (- (9 / 250000 :: real)))"
proof -
  have "0 < 1 - exp (- 2 :: real)" by simp
  moreover have "1 - exp (- (1 / 250000)) < 1 - exp (- (9 / 250000 :: real))" by simp
  ultimately show ?thesis by (rule mult_strict_left_mono [rotated])
qed

lemma response_1_pos: "0 < (1 - exp (- 2)) * (1 - exp (- (1 / 250000 :: real)))"
  by (intro mult_pos_pos) simp_all

lemma response_3_pos: "0 < (1 - exp (- 2)) * (1 - exp (- (9 / 250000 :: real)))"
  by (intro mult_pos_pos) simp_all

lemma fusion_count_1:
  "MultiscaleVesselness_fusion one_voxel_hessian 1 1 2 1 =
     Some [(1 - exp (- 2)) * (1 - exp (- (9 / 250000)))]"
proof -
  have d: "dsigma 1 2 1 = 2" by (simp add: dsigma_def)
  have s: "spec_scales 1 2 2 = [1, 3]" by (simp add: spec_scales_def numeral_2_eq_2)
  have "scales_loop (\<lambda>sigma. GetVesselness 1 (one_voxel_hessian sigma)) 1 2 2 1 (replicate 1 0) =
      Some (fold (\<lambda>s V. fuse 1 (GetVesselness 1 (one_voxel_hessian s)) V) (spec_scales 1 2 2)
              (replicate 1 0))"
    by (rule scales_loop_unroll) (auto simp: less_Suc_eq numeral_2_eq_2)
  moreover have "fold (\<lambda>s V. fuse 1 (GetVesselness 1 (one_voxel_hessian s)) V) [1, 3] (replicate 1 0) =
      [(1 - exp (- 2)) * (1 - exp (- (9 / 250000)))]"
    using response_one_voxel [of 1] response_one_voxel [of 3] response_1_less_3 response_1_pos
    by (simp add: fuse_def Let_def)
  ultimately show ?thesis by (simp add: MultiscaleVesselness_fusion_def d s)
qed

text \<open>
  Claim C3, as stated, fails. With \<open>count = 1\<close>, \<open>\<sigma>_min = 1\<close> and \<open>\<sigma>_max = 2\<close> the step
  is \<open>\<sigma>_max = 2\<close> and the loop also runs the scale 3, above \<open>\<sigma>_max\<close>: the fused value is
  the response at 3, which is larger than the response at the only scale between
  \<open>\<sigma>_min\<close> and \<open>\<sigma>_max\<close>. With \<open>count = 2\<close> and \<open>\<sigma>_min = \<sigma>_max = 1\<close> the step is 0 and the
  loop never ends, so there is no fused value.
\<close>

theorem scales_overshoot_or_never_end:
  "dsigma 1 2 1 = 2 \<and>
   MultiscaleVesselness_fusion one_voxel_hessian 1 1 2 1 =
     Some [GetVesselness 1 (one_voxel_hessian 3) ! 0] \<and>
   (2::real) < 3 \<and>
   GetVesselness 1 (one_voxel_hessian 1) ! 0 < GetVesselness 1 (one_voxel_hessian 3) ! 0 \<and>
   dsigma 1 1 2 = 0 \<and>
   MultiscaleVesselness_fusion one_voxel_hessian 1 1 1 2 = None"
proof -
  have "MultiscaleVesselness_fusion one_voxel_hessian 1 1 1 2 = None"
    by (rule equal_scales_never_end) simp
  then show ?thesis
    using fusion_count_1 response_one_voxel [of 1] response_one_voxel [of 3] response_1_less_3
    by (simp add: dsigma_def)
qed

text \<open>
  Claim C3, amended. The scale step is \<open>(\<sigma>_max - \<sigma>_min) / (count - 1)\<close> when
  \<open>count > 1\<close> and \<open>\<sigma>_max\<close> otherwise. With \<open>count > 1\<close> and \<open>\<sigma>_min < \<sigma>_max\<close> the loop of
  \<^verbatim>\<open>MultiscaleVesselness\<close> ends, the scales it runs are the \<open>count\<close> evenly spaced values
  from \<open>\<sigma>_min\<close> to \<open>\<sigma>_max\<close>, and for every voxel the fused value is the maximum of the
  single-scale responses over these scales. With any positive step the loop ends, the
  scales it runs are the values \<open>\<sigma>_min + k step\<close> that do not exceed
  \<open>\<sigma>_max + step / 2\<close> (some may be above \<open>\<sigma>_max\<close>), and the fused value is the maximum of
  the initial 0 and the responses over these scales. When \<open>\<sigma>_min\<close> exceeds
  \<open>\<sigma>_max + step / 2\<close> no scale is run and the fused field is 0. In each case the fused
  value is at least the larger response of any two scales run.
\<close>

theorem multiscale_fusion_pointwise_max:
  "dsigma si sf n = (if 1 < n then (sf - si) / (real_of_int n - 1) else sf) \<and>
   (1 < n \<and> si < sf \<and> idx < N \<longrightarrow>
      (let ss = spec_scales si ((sf - si) / (real_of_int n - 1)) (nat n)
       in hd ss = si \<and> last ss = sf \<and> length ss = nat n \<and>
          (\<exists>V. MultiscaleVesselness_fusion hessian N si sf n = Some V \<and> length V = N \<and>
             V ! idx = Max ((\<lambda>s. GetVesselness N (hessian s) ! idx) ` set ss) \<and>
             (\<forall>s1\<in>set ss. \<forall>s2\<in>set ss.
                max (GetVesselness N (hessian s1) ! idx) (GetVesselness N (hessian s2) ! idx)
                  \<le> V ! idx)))) \<and>
   (0 < dsigma si sf n \<and> idx < N \<longrightarrow>
      (let d = dsigma si sf n;
           m = (if si \<le> sf + 0.5 * d then Suc (nat \<lfloor>(sf + 0.5 * d - si) / d\<rfloor>) else 0);
           ss = spec_scales si d m
       in (\<forall>k. k < m \<longleftrightarrow> si + real k * d \<le> sf + 0.5 * d) \<and>
          (\<exists>V. MultiscaleVesselness_fusion hessian N si sf n = Some V \<and> length V = N \<and>
             V ! idx = Max (insert 0 ((\<lambda>s. GetVesselness N (hessian s) ! idx) ` set ss)) \<and>
             (\<forall>s1\<in>set ss. \<forall>s2\<in>set ss.
                max (GetVesselness N (hessian s1) ! idx) (GetVesselness N (hessian s2) ! idx)
                  \<le> V ! idx)))) \<and>
   (\<not> si \<le> sf + 0.5 * dsigma si sf n \<longrightarrow>
      MultiscaleVesselness_fusion hessian N si sf n = Some (replicate N 0))"
proof (intro conjI impI)
  show "dsigma si sf n = (if 1 < n then (sf - si) / (real_of_int n - 1) else sf)"
    by (simp add: dsigma_def)
next
  assume a: "1 < n \<and> si < sf \<and> idx < N"
  let ?r = "\<lambda>s. GetVesselness N (hessian s) ! idx"
  define ss where "ss = spec_scales si ((sf - si) / (real_of_int n - 1)) (nat n)"
  have d: "dsigma si sf n = (sf - si) / (real_of_int n - 1)" using a by (simp add: dsigma_def)
  have len: "length ss = nat n" by (simp add: ss_def spec_scales_def)
  have ne: "ss \<noteq> []" using a len by auto
  have hd: "hd ss = si"
    using a by (simp add: ss_def spec_scales_def hd_map upt_conv_Cons)
  have "last ss = si + real (nat n - 1) * ((sf - si) / (real_of_int n - 1))"
    using a ne by (simp add: ss_def spec_scales_def last_map)
  also have "real (nat n - 1) = real_of_int n - 1"
  proof -
    have "int (nat n - 1) = n - 1" using a by linarith
    then have "real_of_int (int (nat n - 1)) = real_of_int (n - 1)" by (rule arg_cong)
    then show ?thesis by simp
  qed
  finally have last: "last ss = sf" using a by simp
  from fusion_result [OF _ _ conjunct2 [OF conjunct2 [OF a]], of "nat n" si sf n hessian]
    even_scales [of n si sf] a
  obtain V where V: "MultiscaleVesselness_fusion hessian N si sf n = Some V" "length V = N"
    "V ! idx = Max (insert 0 (?r ` set ss))"
    unfolding ss_def d by blast
  have nn: "\<forall>x\<in>?r ` set ss. 0 \<le> x" using a by (auto simp: GetVesselness_nonneg)
  have Vmax: "V ! idx = Max (?r ` set ss)"
    using V(3) Max_insert_zero [OF _ _ nn] ne by simp
  have "?r s \<le> V ! idx" if "s \<in> set ss" for s
    unfolding Vmax using that by (intro Max_ge) auto
  then have "\<forall>s1\<in>set ss. \<forall>s2\<in>set ss. max (?r s1) (?r s2) \<le> V ! idx" by simp
  then show "let ss = spec_scales si ((sf - si) / (real_of_int n - 1)) (nat n)
       in hd ss = si \<and> last ss = sf \<and> length ss = nat n \<and>
          (\<exists>V. MultiscaleVesselness_fusion hessian N si sf n = Some V \<and> length V = N \<and>
             V ! idx = Max ((\<lambda>s. GetVesselness N (hessian s) ! idx) ` set ss) \<and>
             (\<forall>s1\<in>set ss. \<forall>s2\<in>set ss.
                max (GetVesselness N (hessian s1) ! idx) (GetVesselness N (hessian s2) ! idx)
                  \<le> V ! idx))"
    using hd last len V(1,2) Vmax unfolding Let_def ss_def [symmetric] by blast
next
  assume a: "0 < dsigma si sf n \<and> idx < N"
  let ?r = "\<lambda>s. GetVesselness N (hessian s) ! idx"
  define d where "d = dsigma si sf n"
  define m where "m = (if si \<le> sf + 0.5 * d then Suc (nat \<lfloor>(sf + 0.5 * d - si) / d\<rfloor>) else 0)"
  define ss where "ss = spec_scales si d m"
  have dpos: "0 < d" using a by (simp add: d_def)
  from positive_step_count [OF dpos, of si "sf + 0.5 * d"]
  have m: "\<forall>k<m. si + real k * d \<le> sf + 0.5 * d" "\<not> si + real m * d \<le> sf + 0.5 * d"
    unfolding m_def by blast+
  have iff: "k < m \<longleftrightarrow> si + real k * d \<le> sf + 0.5 * d" for k
  proof
    assume "k < m" then show "si + real k * d \<le> sf + 0.5 * d" using m(1) by blast
  next
    assume le: "si + real k * d \<le> sf + 0.5 * d"
    show "k < m"
    proof (rule ccontr)
      assume "\<not> k < m"
      then have "real m \<le> real k" by simp
      then have "real m * d \<le> real k * d" using dpos by (simp add: mult_right_mono)
      then show False using le m(2) by linarith
    qed
  qed
  from fusion_result [OF m [unfolded d_def] conjunct2 [OF a], of hessian]
  obtain V where V: "MultiscaleVesselness_fusion hessian N si sf n = Some V" "length V = N"
    "V ! idx = Max (insert 0 (?r ` set ss))" unfolding ss_def d_def by blast
  have "?r s \<le> V ! idx" if "s \<in> set ss" for s
    unfolding V(3) using that by (intro Max_ge) auto
  then have "\<forall>s1\<in>set ss. \<forall>s2\<in>set ss. max (?r s1) (?r s2) \<le> V ! idx" by simp
  then show "let d = dsigma si sf n;
           m = (if si \<le> sf + 0.5 * d then Suc (nat \<lfloor>(sf + 0.5 * d - si) / d\<rfloor>) else 0);
           ss = spec_scales si d m
       in (\<forall>k. k < m \<longleftrightarrow> si + real k * d \<le> sf + 0.5 * d) \<and>
          (\<exists>V. MultiscaleVesselness_fusion hessian N si sf n = Some V \<and> length V = N \<and>
             V ! idx = Max (insert 0 ((\<lambda>s. GetVesselness N (hessian s) ! idx) ` set ss)) \<and>
             (\<forall>s1\<in>set ss. \<forall>s2\<in>set ss.
                max (GetVesselness N (hessian s1) ! idx) (GetVesselness N (hessian s2) ! idx)
                  \<le> V ! idx))"
    using iff V unfolding Let_def d_def [symmetric] m_def [symmetric] ss_def [symmetric]
    by blast
next
  assume "\<not> si \<le> sf + 0.5 * dsigma si sf n"
  then have "scales_loop (\<lambda>sigma. GetVesselness N (hessian sigma)) N sf (dsigma si sf n) si
      (replicate N 0) =
      Some (fold (\<lambda>s V. fuse N (GetVesselness N (hessian s)) V)
              (spec_scales si (dsigma si sf n) 0) (replicate N 0))"
    by (intro scales_loop_unroll) simp_all
  then show "MultiscaleVesselness_fusion hessian N si sf n = Some (replicate N 0)"
    by (simp add: MultiscaleVesselness_fusion_def spec_scales_def)
qed

lemma spec_scales_1_1_2: "spec_scales 1 1 2 = [1, 2]"
  by (simp add: spec_scales_def numeral_2_eq_2)

lemma spec_scales_1_2_2: "spec_scales 1 2 (Suc (Suc 0)) = [1, 3]"
  by (simp add: spec_scales_def)

theorem multiscale_fusion_pointwise_max_witness:
  "(1::int) < 2 \<and> (1::real) < 2 \<and> (0::nat) < 1 \<and> dsigma 1 2 2 = 1 \<and>
   spec_scales 1 ((2 - 1) / (real_of_int 2 - 1)) (nat 2) = [1, 2] \<and>
   (\<exists>V. MultiscaleVesselness_fusion one_voxel_hessian 1 1 2 2 = Some V \<and> length V = 1 \<and>
      V ! 0 = Max {GetVesselness 1 (one_voxel_hessian 1) ! 0,
                   GetVesselness 1 (one_voxel_hessian 2) ! 0}) \<and>
   0 < dsigma 1 2 1 \<and>
   (\<exists>V. MultiscaleVesselness_fusion one_voxel_hessian 1 1 2 1 = Some V \<and> length V = 1 \<and>
      V ! 0 = Max {0, GetVesselness 1 (one_voxel_hessian 1) ! 0,
                   GetVesselness 1 (one_voxel_hessian 3) ! 0}) \<and>
   \<not> (2::real) \<le> 1 + 0.5 * dsigma 2 1 2 \<and>
   MultiscaleVesselness_fusion one_voxel_hessian 1 2 1 2 = Some [0]"
proof -
  have a: "\<exists>V. MultiscaleVesselness_fusion one_voxel_hessian 1 1 2 2 = Some V \<and> length V = 1 \<and>
      V ! 0 = Max {GetVesselness 1 (one_voxel_hessian 1) ! 0,
                   GetVesselness 1 (one_voxel_hessian 2) ! 0}"
    using multiscale_fusion_pointwise_max [of 1 2 2 0 1 one_voxel_hessian]
    by (simp add: spec_scales_1_1_2 dsigma_def Let_def) blast
  have b: "\<exists>V. MultiscaleVesselness_fusion one_voxel_hessian 1 1 2 1 = Some V \<and> length V = 1 \<and>
      V ! 0 = Max {0, GetVesselness 1 (one_voxel_hessian 1) ! 0,
                   GetVesselness 1 (one_voxel_hessian 3) ! 0}"
    using multiscale_fusion_pointwise_max [of 1 2 1 0 1 one_voxel_hessian]
    by (simp add: spec_scales_1_2_2 dsigma_def Let_def) blast
  have c: "MultiscaleVesselness_fusion one_voxel_hessian 1 2 1 2 = Some [0]"
    using multiscale_fusion_pointwise_max [of 2 1 2 0 1 one_voxel_hessian] by (simp add: dsigma_def)
  show ?thesis using a b c by (simp add: spec_scales_1_1_2 dsigma_def)
qed

subsection \<open>Fixed-threshold binarization\<close>

text \<open>
  Claim C7. On a grid whose values are all 0 or 255, the fixed-threshold policy with a
  threshold in the open interval \<open>(0,1)\<close> returns the same grid.
\<close>

theorem fixed_threshold_idempotent:
  assumes "0 < threshold" "threshold < 1" "\<forall>x\<in>set g. x = 0 \<or> x = 255"
  shows "\<exists>out. BinarizeAndConvertDoubleToChar g threshold = Inr out \<and>
           map (\<lambda>w. real (unat w)) out = g"
proof -
  have "map (\<lambda>x. real (unat (if x \<le> threshold then 0 else 255 :: 8 word))) g = g"
    using assms by (intro map_idI) auto
  then show ?thesis using assms(1)
    by (simp add: BinarizeAndConvertDoubleToChar_def Let_def comp_def)
qed

theorem fixed_threshold_idempotent_witness:
  "(0::real) < 1 / 2 \<and> (1 / 2 :: real) < 1 \<and>
   BinarizeAndConvertDoubleToChar [0, 255, 255, 0] (1 / 2) = Inr [0, 255, 255, 0]"
  using fixed_threshold_idempotent [of "1 / 2" "[0, 255, 255, 0]"]
  by (simp add: BinarizeAndConvertDoubleToChar_def)

text \<open>
  Claim C4 fails on the code. The rescale branch of the fixed-threshold policy
  (\<open>threshold \<le> 0\<close>) divides by the range of the grid with no guard: on a uniform
  grid the divisor is zero. The per-block conservative policy has the guard that this
  branch misses.
\<close>

theorem fixed_threshold_rescale_divides_by_zero:
  "BinarizeAndConvertDoubleToChar [0, 0] 0 = Inl DivisionByZero \<and>
   BinarizeAndConvertDoubleToChar [5, 5, 5] (- 1) = Inl DivisionByZero"
  by (simp add: BinarizeAndConvertDoubleToChar_def GetRange_def divide_def)

text \<open>The same branch on a grid that is not uniform, and the binarizing branch.\<close>

lemma fixed_threshold_rescale_run:
  "BinarizeAndConvertDoubleToChar [0, 2, 4] (- 1) = Inr [0, 127, 255]"
  by (simp add: BinarizeAndConvertDoubleToChar_def GetRange_def divide_def double_to_int_def)

lemma fixed_threshold_positive_no_division:
  "0 < threshold \<Longrightarrow> \<exists>out. BinarizeAndConvertDoubleToChar g threshold = Inr out"
  by (simp add: BinarizeAndConvertDoubleToChar_def Let_def)

subsection \<open>Per-plane adaptive binarization\<close>

lemma fold_add_sum_list:
  "fold (\<lambda>idx s. s + f idx) ids (a::real) = a + sum_list (map f ids)"
  by (induction ids arbitrary: a) simp_all

lemma fold_min_Min:
  "fold (\<lambda>idx m. if f idx < m then f idx else m) ids (a::real) = Min (insert a (f ` set ids))"
proof (induction ids arbitrary: a)
  case Nil
  then show ?case by simp
next
  case (Cons i ids)
  have "(if f i < a then f i else a) = min (f i) a" by (simp add: min_def)
  moreover have "Min (insert (min (f i) a) (f ` set ids)) = Min (insert a (insert (f i) (f ` set ids)))"
    by (cases "set ids = {}") (simp_all add: min.commute min.left_commute min.assoc)
  ultimately show ?case using Cons.IH [of "min (f i) a"] by simp
qed

lemma fold_max_Max_ids:
  "fold (\<lambda>idx m. if f idx > m then f idx else m) ids (a::real) = Max (insert a (f ` set ids))"
proof (induction ids arbitrary: a)
  case Nil
  then show ?case by simp
next
  case (Cons i ids)
  have "(if f i > a then f i else a) = max (f i) a" by (simp add: max_def)
  moreover have "Max (insert (max (f i) a) (f ` set ids)) = Max (insert a (insert (f i) (f ` set ids)))"
    by (cases "set ids = {}") (simp_all add: max.commute max.left_commute max.assoc)
  ultimately show ?case using Cons.IH [of "max (f i) a"] by simp
qed

lemma length_plane_ids: "length (plane_ids (d0, d1, d2) z) = d0 * d1"
  by (simp add: plane_ids_def length_concat comp_def sum_list_triv)

lemma length_plane_values:
  "Dimensions Img = (d0, d1, d2) \<Longrightarrow> length (plane_values Img z) = d0 * d1"
  by (simp add: plane_values_def length_plane_ids)

lemma z_sum_plane: "z_sum (Scalars Img) (plane_ids (Dimensions Img) z) = sum_list (plane_values Img z)"
  by (simp add: z_sum_def fold_add_sum_list plane_values_def)

lemma var_sum_plane:
  "var_sum (Scalars Img) (plane_ids (Dimensions Img) z) m =
     sum_list (map (\<lambda>v. (v - m)\<^sup>2) (plane_values Img z))"
  by (simp add: var_sum_def fold_add_sum_list plane_values_def comp_def power2_eq_square)

lemma z_min_plane:
  assumes "plane_values Img z \<noteq> []" "\<forall>v\<in>set (plane_values Img z). v \<le> DBL_MAX"
  shows "z_min (Scalars Img) (plane_ids (Dimensions Img) z) = Min (set (plane_values Img z))"
proof -
  let ?S = "set (plane_values Img z)"
  have S: "?S = (\<lambda>idx. Scalars Img ! idx) ` set (plane_ids (Dimensions Img) z)"
    by (simp add: plane_values_def)
  have "Min ?S \<in> ?S" using assms(1) by (intro Min_in) simp_all
  then have "Min ?S \<le> DBL_MAX" using assms(2) by blast
  moreover have "Min (insert DBL_MAX ?S) = min DBL_MAX (Min ?S)"
    using assms(1) by (intro Min_insert) simp_all
  ultimately have "Min (insert DBL_MAX ?S) = Min ?S" by (simp add: min_absorb2)
  then show ?thesis by (simp add: z_min_def fold_min_Min S)
qed

lemma z_max_plane:
  assumes "\<exists>v\<in>set (plane_values Img z). DBL_MIN \<le> v"
  shows "z_max (Scalars Img) (plane_ids (Dimensions Img) z) = Max (set (plane_values Img z))"
proof -
  let ?S = "set (plane_values Img z)"
  have S: "?S = (\<lambda>idx. Scalars Img ! idx) ` set (plane_ids (Dimensions Img) z)"
    by (simp add: plane_values_def)
  from assms obtain v where v: "v \<in> ?S" "DBL_MIN \<le> v" by blast
  then have "v \<le> Max ?S" by simp
  with v(2) have "DBL_MIN \<le> Max ?S" by linarith
  moreover have ne: "?S \<noteq> {}" using v(1) by auto
  moreover have "Max (insert DBL_MIN ?S) = max DBL_MIN (Max ?S)"
    using ne by (intro Max_insert) simp_all
  ultimately have "Max (insert DBL_MIN ?S) = Max ?S" by (simp add: max_absorb2)
  then show ?thesis by (simp add: z_max_def fold_max_Max_ids S)
qed

lemma z_threshold_defined:
  assumes "Dimensions Img = (d0, d1, d2)" "0 < d0" "0 < d1"
  shows "\<exists>t. z_threshold Img base z = Inr t"
  using assms by (simp add: z_threshold_def divide_def Let_def)

lemma z_threshold_replaced:
  assumes "Dimensions Img = (d0, d1, d2)" "0 < d0" "0 < d1"
    and "\<forall>v\<in>set (plane_values Img z). v \<le> DBL_MAX"
    and "\<exists>v\<in>set (plane_values Img z). DBL_MIN \<le> v"
  shows "z_threshold Img base z = Inr (replaced_plane_threshold Img base z)"
proof -
  have len: "length (plane_values Img z) = d0 * d1" using assms(1) by (rule length_plane_values)
  then have ne: "plane_values Img z \<noteq> []" using assms(2,3) by auto
  have nz: "real (d0 * d1) \<noteq> 0" using assms(2,3) by simp
  have mean: "divide (z_sum (Scalars Img) (plane_ids (Dimensions Img) z)) (real (d0 * d1)) =
      Inr (plane_mean Img z)"
    using nz by (simp add: divide_def z_sum_plane plane_mean_def len)
  have var: "divide (var_sum (Scalars Img) (plane_ids (Dimensions Img) z) (plane_mean Img z))
      (real (d0 * d1)) = Inr ((plane_std Img z)\<^sup>2)"
  proof -
    have "0 \<le> sum_list (map (\<lambda>v. (v - plane_mean Img z)\<^sup>2) (plane_values Img z)) / real (d0 * d1)"
      by (intro divide_nonneg_nonneg sum_list_nonneg) auto
    then show ?thesis using nz by (simp add: divide_def var_sum_plane plane_std_def len)
  qed
  have "0 \<le> plane_std Img z" unfolding plane_std_def
    by (intro real_sqrt_ge_zero divide_nonneg_nonneg sum_list_nonneg) auto
  then have std: "sqrt ((plane_std Img z)\<^sup>2) = plane_std Img z" by simp
  show ?thesis
    unfolding z_threshold_def Let_def assms(1) fst_conv snd_conv
    using mean var std z_min_plane [OF ne assms(4)] z_max_plane [OF assms(5)]
    by (simp add: assms(1) replaced_plane_threshold_def Let_def algebra_simps)
qed

lemma length_apply_threshold: "length (apply_threshold Sc t ids out) = length out"
  unfolding apply_threshold_def by (induction ids arbitrary: out) simp_all

lemma nth_apply_threshold:
  assumes "\<forall>i\<in>set ids. i < length out" "i < length out"
  shows "apply_threshold Sc t ids out ! i =
           (if i \<in> set ids then Some (if Sc ! i \<le> t then 0 else 255) else out ! i)"
  using assms unfolding apply_threshold_def
proof (induction ids arbitrary: out)
  case Nil
  then show ?case by simp
next
  case (Cons a ids)
  then show ?case by (cases "i = a") simp_all
qed

lemma in_plane_ids:
  "i \<in> set (plane_ids (d0, d1, d2) z) \<longleftrightarrow> (\<exists>x<d0. \<exists>y<d1. i = x + y * d0 + z * d0 * d1)"
  apply (auto simp: plane_ids_def FindPoint_def GetId_def)
  subgoal for x y by (intro bexI [of _ x] image_eqI [of _ _ y]) auto
  done

lemma xy_bound:
  assumes "x < d0" "y < (d1::nat)"
  shows "x + y * d0 < d0 * d1"
proof -
  have "x + y * d0 < d0 + y * d0" using assms(1) by simp
  also have "\<dots> = Suc y * d0" by simp
  also have "\<dots> \<le> d1 * d0" using assms(2) by (intro mult_le_mono1) simp
  finally show ?thesis by (simp add: mult.commute)
qed

lemma plane_ids_div:
  assumes "i \<in> set (plane_ids (d0, d1, d2) z)"
  shows "i div (d0 * d1) = z"
proof -
  from assms obtain x y where xy: "x < d0" "y < d1" "i = x + y * d0 + z * d0 * d1"
    by (auto simp: in_plane_ids)
  have lt: "x + y * d0 < d0 * d1" using xy(1,2) by (rule xy_bound)
  then have "0 < d0 * d1" by linarith
  then have "(x + y * d0 + z * (d0 * d1)) div (d0 * d1) = z + (x + y * d0) div (d0 * d1)"
    by simp
  then show ?thesis using xy(3) lt by (simp add: mult.assoc)
qed

lemma plane_ids_bound:
  assumes "i \<in> set (plane_ids (d0, d1, d2) z)" "z < d2"
  shows "i < d0 * d1 * d2"
proof -
  from assms obtain x y where xy: "x < d0" "y < d1" "i = x + y * d0 + z * d0 * d1"
    by (auto simp: in_plane_ids)
  have "x + y * d0 < d0 * d1" using xy(1,2) by (rule xy_bound)
  then have "i < d0 * d1 + z * (d0 * d1)" using xy(3) by (simp add: mult.assoc)
  also have "\<dots> = Suc z * (d0 * d1)" by simp
  also have "\<dots> \<le> d2 * (d0 * d1)" using assms(2) by (intro mult_le_mono1) simp
  finally show ?thesis by (simp add: mult.commute)
qed

lemma planes_loop_result:
  assumes "Dimensions Img = (d0, d1, d2)"
    and "\<forall>z\<in>set zs. z_threshold Img base z = Inr (thr z)"
    and "\<forall>z\<in>set zs. \<forall>i\<in>set (plane_ids (d0, d1, d2) z). i < length out"
  shows "\<exists>out'. planes_loop Img base zs out = Inr out' \<and> length out' = length out \<and>
           (\<forall>i<length out. out' ! i =
              (if i div (d0 * d1) \<in> set zs \<and> i \<in> set (plane_ids (d0, d1, d2) (i div (d0 * d1)))
               then Some (if Scalars Img ! i \<le> thr (i div (d0 * d1)) then 0 else 255)
               else out ! i))"
  using assms(2,3)
proof (induction zs arbitrary: out)
  case Nil
  then show ?case by simp
next
  case (Cons z zs)
  let ?out1 = "apply_threshold (Scalars Img) (thr z) (plane_ids (d0, d1, d2) z) out"
  have len1: "length ?out1 = length out" by (rule length_apply_threshold)
  have b: "\<forall>i\<in>set (plane_ids (d0, d1, d2) z). i < length out" using Cons.prems(2) by simp
  from Cons.IH [of ?out1] Cons.prems
  obtain out' where o: "planes_loop Img base zs ?out1 = Inr out'" "length out' = length out"
    "\<forall>i<length out. out' ! i =
        (if i div (d0 * d1) \<in> set zs \<and> i \<in> set (plane_ids (d0, d1, d2) (i div (d0 * d1)))
         then Some (if Scalars Img ! i \<le> thr (i div (d0 * d1)) then 0 else 255)
         else ?out1 ! i)"
    by (auto simp: len1)
  have run: "planes_loop Img base (z # zs) out = Inr out'"
    using Cons.prems(1) o(1) by (simp add: assms(1))
  have "out' ! i =
      (if i div (d0 * d1) \<in> set (z # zs) \<and> i \<in> set (plane_ids (d0, d1, d2) (i div (d0 * d1)))
       then Some (if Scalars Img ! i \<le> thr (i div (d0 * d1)) then 0 else 255)
       else out ! i)" if i: "i < length out" for i
  proof (cases "i \<in> set (plane_ids (d0, d1, d2) z)")
    case True
    then have "i div (d0 * d1) = z" by (rule plane_ids_div)
    then show ?thesis using o(3) i True nth_apply_threshold [OF b i] by simp
  next
    case False
    then have "?out1 ! i = out ! i" using nth_apply_threshold [OF b i] by simp
    moreover have "\<not> (i div (d0 * d1) = z \<and> i \<in> set (plane_ids (d0, d1, d2) (i div (d0 * d1))))"
      using False by auto
    ultimately show ?thesis using o(3) i by auto
  qed
  then show ?case using run o(2) by blast
qed

lemma DBL_MIN_pos: "0 < DBL_MIN"
  by (simp add: DBL_MIN_def)

lemma DBL_MIN_le_1: "DBL_MIN \<le> 1"
  by (simp add: DBL_MIN_def)

lemma DBL_MAX_ge: "1000 \<le> DBL_MAX"
  by (simp add: DBL_MAX_def)

lemma FindPoint_in_plane:
  "x < d0 \<Longrightarrow> y < d1 \<Longrightarrow> FindPoint (d0, d1, d2) x y z \<in> set (plane_ids (d0, d1, d2) z)"
  by (auto simp: in_plane_ids FindPoint_def GetId_def)

text \<open>
  Claim C5, amended. Under the per-plane adaptive policy, for every non-empty z-plane
  whose values do not exceed \<^verbatim>\<open>DBL_MAX\<close> and reach \<^verbatim>\<open>DBL_MIN\<close>, the threshold used is
  \<open>\<mu> + 2 base \<sigma>\<close> when this lies between the plane minimum and the plane maximum; a
  value above the plane maximum is replaced by \<open>0.8 max\<close>, and a value that is then below
  the plane minimum is replaced by \<open>min + 0.1 range\<close>. Every voxel of the plane at or
  below the threshold becomes 0 and every voxel above it becomes 255.
\<close>

theorem per_plane_threshold_replaced:
  assumes "Dimensions Img = (d0, d1, d2)" "0 < d0" "0 < d1" "z < d2"
    and "length (Scalars Img) = d0 * d1 * d2"
    and "\<forall>v\<in>set (plane_values Img z). v \<le> DBL_MAX"
    and "\<exists>v\<in>set (plane_values Img z). DBL_MIN \<le> v"
  shows "z_threshold Img base z = Inr (replaced_plane_threshold Img base z) \<and>
         (Min (set (plane_values Img z)) \<le> plane_mean Img z + 2 * base * plane_std Img z \<and>
          plane_mean Img z + 2 * base * plane_std Img z \<le> Max (set (plane_values Img z)) \<longrightarrow>
            replaced_plane_threshold Img base z =
              plane_mean Img z + 2 * base * plane_std Img z) \<and>
         (\<exists>out. BinarizeAndConvertDoubleToCharZAdaptive Img base = Inr out \<and>
            length out = d0 * d1 * d2 \<and>
            (\<forall>x<d0. \<forall>y<d1. out ! FindPoint (d0, d1, d2) x y z =
               Some (if Scalars Img ! FindPoint (d0, d1, d2) x y z
                          \<le> replaced_plane_threshold Img base z then 0 else 255)))"
proof -
  define thr where "thr = (\<lambda>z. projr (z_threshold Img base z))"
  have t: "z_threshold Img base z = Inr (replaced_plane_threshold Img base z)"
    using assms(1,2,3,6,7) by (rule z_threshold_replaced)
  have all: "\<forall>z'\<in>set [0..<d2]. z_threshold Img base z' = Inr (thr z')"
  proof
    fix z'
    from z_threshold_defined [OF assms(1,2,3)]
    obtain t' where "z_threshold Img base z' = Inr t'" by blast
    then show "z_threshold Img base z' = Inr (thr z')" by (simp add: thr_def)
  qed
  have thr_z: "thr z = replaced_plane_threshold Img base z" by (simp add: thr_def t)
  let ?out0 = "replicate (length (Scalars Img)) (None :: 8 word option)"
  have bnd: "\<forall>z'\<in>set [0..<d2]. \<forall>i\<in>set (plane_ids (d0, d1, d2) z'). i < length ?out0"
    using plane_ids_bound [of _ d0 d1 d2] assms(5) by auto
  from planes_loop_result [OF assms(1) all bnd]
  obtain out where o: "planes_loop Img base [0..<d2] ?out0 = Inr out" "length out = length ?out0"
    "\<forall>i<length ?out0. out ! i =
        (if i div (d0 * d1) \<in> set [0..<d2] \<and> i \<in> set (plane_ids (d0, d1, d2) (i div (d0 * d1)))
         then Some (if Scalars Img ! i \<le> thr (i div (d0 * d1)) then 0 else 255)
         else ?out0 ! i)"
    by blast
  have run: "BinarizeAndConvertDoubleToCharZAdaptive Img base = Inr out"
    using o(1) by (simp add: BinarizeAndConvertDoubleToCharZAdaptive_def assms(1))
  have "out ! FindPoint (d0, d1, d2) x y z =
          Some (if Scalars Img ! FindPoint (d0, d1, d2) x y z
                     \<le> replaced_plane_threshold Img base z then 0 else 255)"
    if "x < d0" "y < d1" for x y
  proof -
    let ?i = "FindPoint (d0, d1, d2) x y z"
    have mem: "?i \<in> set (plane_ids (d0, d1, d2) z)" using that by (rule FindPoint_in_plane)
    then have dv: "?i div (d0 * d1) = z" by (rule plane_ids_div)
    have "?i < length ?out0" using plane_ids_bound [OF mem assms(4)] assms(5) by simp
    then show ?thesis using o(3) dv mem assms(4) thr_z by simp
  qed
  moreover have "replaced_plane_threshold Img base z =
      plane_mean Img z + 2 * base * plane_std Img z"
    if "Min (set (plane_values Img z)) \<le> plane_mean Img z + 2 * base * plane_std Img z \<and>
        plane_mean Img z + 2 * base * plane_std Img z \<le> Max (set (plane_values Img z))"
    using that by (simp add: replaced_plane_threshold_def Let_def)
  ultimately show ?thesis using t run o(2) assms(5) by auto
qed

lemma plane_values_two_voxel: "plane_values two_voxel_plane 0 = [0, 10]"
  by (simp add: plane_values_def plane_ids_def two_voxel_plane_def FindPoint_def GetId_def upt_rec)

lemma plane_mean_two_voxel: "plane_mean two_voxel_plane 0 = 5"
  by (simp add: plane_mean_def plane_values_two_voxel)

lemma plane_std_two_voxel: "plane_std two_voxel_plane 0 = 5"
  by (simp add: plane_std_def plane_values_two_voxel plane_mean_two_voxel)

lemma replaced_two_voxel: "replaced_plane_threshold two_voxel_plane (2 / 5) 0 = 9"
  by (simp add: replaced_plane_threshold_def plane_values_two_voxel plane_mean_two_voxel
      plane_std_two_voxel)

lemma spec_two_voxel: "spec_plane_threshold two_voxel_plane (2 / 5) 0 = 8"
  by (simp add: spec_plane_threshold_def plane_values_two_voxel plane_mean_two_voxel
      plane_std_two_voxel clamp_def)

lemma two_voxel_in_range:
  "\<forall>v\<in>set (plane_values two_voxel_plane 0). v \<le> DBL_MAX"
  "\<exists>v\<in>set (plane_values two_voxel_plane 0). DBL_MIN \<le> v"
  using DBL_MAX_ge DBL_MIN_le_1 by (simp_all add: plane_values_two_voxel)

text \<open>
  Claim C5, as stated, fails. On the plane with the values 0 and 10 and the base
  threshold 0.4, \<open>\<mu> + 2 base \<sigma> = 9\<close> lies between the minimum and the maximum, so the
  code uses 9; clamping into \<open>[min + 0.1 range, 0.8 max] = [1, 8]\<close> gives 8.
\<close>

theorem per_plane_threshold_not_clamped:
  "z_threshold two_voxel_plane (2 / 5) 0 = Inr 9 \<and>
   spec_plane_threshold two_voxel_plane (2 / 5) 0 = 8 \<and>
   plane_mean two_voxel_plane 0 + 2 * (2 / 5) * plane_std two_voxel_plane 0 = 9 \<and>
   Max (set (plane_values two_voxel_plane 0)) = 10"
proof -
  have d: "Dimensions two_voxel_plane = (2, 1, 1)" by (simp add: two_voxel_plane_def)
  have "z_threshold two_voxel_plane (2 / 5) 0 =
      Inr (replaced_plane_threshold two_voxel_plane (2 / 5) 0)"
    by (rule z_threshold_replaced [OF d _ _ two_voxel_in_range]) simp_all
  then show ?thesis
    by (simp add: replaced_two_voxel spec_two_voxel plane_mean_two_voxel plane_std_two_voxel
        plane_values_two_voxel)
qed

theorem per_plane_threshold_replaced_witness:
  "Dimensions two_voxel_plane = (2, 1, 1) \<and> (0::nat) < 2 \<and> (0::nat) < 1 \<and>
   length (Scalars two_voxel_plane) = 2 * 1 * 1 \<and>
   plane_values two_voxel_plane 0 = [0, 10] \<and> 0 \<le> DBL_MAX \<and> 10 \<le> DBL_MAX \<and> DBL_MIN \<le> 10 \<and>
   z_threshold two_voxel_plane (2 / 5) 0 = Inr 9 \<and>
   (\<exists>out. BinarizeAndConvertDoubleToCharZAdaptive two_voxel_plane (2 / 5) = Inr out \<and>
      out ! FindPoint (2, 1, 1) 0 0 0 = Some 0 \<and> out ! FindPoint (2, 1, 1) 1 0 0 = Some 255)"
proof -
  have d: "Dimensions two_voxel_plane = (2, 1, 1)" "length (Scalars two_voxel_plane) = 2 * 1 * 1"
    by (simp_all add: two_voxel_plane_def)
  have s: "Scalars two_voxel_plane ! FindPoint (2, 1, 1) 0 0 0 = 0"
    "Scalars two_voxel_plane ! FindPoint (2, 1, 1) 1 0 0 = 10"
    by (simp_all add: two_voxel_plane_def FindPoint_def GetId_def)
  have r: "0 \<le> DBL_MAX" "10 \<le> DBL_MAX" "DBL_MIN \<le> 10"
    using DBL_MAX_ge DBL_MIN_le_1 by simp_all
  from per_plane_threshold_replaced [of two_voxel_plane 2 1 1 0 "2 / 5"]
  show ?thesis
    using d s r two_voxel_in_range by (simp add: replaced_two_voxel plane_values_two_voxel) force
qed

subsection \<open>Divisions of the adaptive policies\<close>

text \<open>
  On a grid with at least one voxel in every plane, the per-plane policy and the
  per-block conservative policy (with a positive block size) end without a division by
  zero: the divisors are the number of voxels of the plane or block, the block range
  after its guard, and the block mean when it is positive.
\<close>

lemma planes_loop_defined:
  assumes "Dimensions Img = (d0, d1, d2)" "0 < d0" "0 < d1"
  shows "\<exists>out'. planes_loop Img base zs out = Inr out'"
proof (induction zs arbitrary: out)
  case Nil
  then show ?case by simp
next
  case (Cons z zs)
  from z_threshold_defined [OF assms] obtain t where "z_threshold Img base z = Inr t" by blast
  then show ?case using Cons.IH by simp
qed

lemma per_plane_no_division_by_zero:
  assumes "Dimensions Img = (d0, d1, d2)" "0 < d0" "0 < d1"
  shows "\<exists>out. BinarizeAndConvertDoubleToCharZAdaptive Img base = Inr out"
  unfolding BinarizeAndConvertDoubleToCharZAdaptive_def by (rule planes_loop_defined [OF assms])

lemma block_threshold_defined:
  assumes "Dimensions Img = (d0, d1, d2)" "0 < d0" "0 < d1" "z_start < z_end"
  shows "\<exists>t. block_threshold Img base gr z_start z_end = Inr t"
proof -
  have px: "real (d0 * d1 * (z_end - z_start)) \<noteq> 0" using assms(2,3,4) by simp
  show ?thesis
    unfolding block_threshold_def Let_def assms(1) fst_conv snd_conv
    using px by (simp add: divide_def)
qed

lemma blocks_loop_defined:
  assumes "Dimensions Img = (d0, d1, d2)" "0 < d0" "0 < d1" "0 < bs"
  shows "\<exists>out'. blocks_loop Img base gr bs z_start out = Some (Inr out')"
proof (induction "d2 - z_start" arbitrary: z_start out rule: less_induct)
  case less
  show ?case
  proof (cases "z_start < d2")
    case False
    then show ?thesis by (subst blocks_loop.simps) (simp add: assms(1))
  next
    case True
    define z_end where "z_end = (if z_start + bs < d2 then z_start + bs else d2)"
    have "z_start < z_end" using True assms(4) by (simp add: z_end_def)
    from block_threshold_defined [OF assms(1,2,3) this]
    obtain t where t: "block_threshold Img base gr z_start z_end = Inr t" by blast
    have "d2 - (z_start + bs) < d2 - z_start" using True assms(4) by simp
    from less [OF this]
    obtain out' where "blocks_loop Img base gr bs (z_start + bs)
        (apply_threshold (Scalars Img) t (block_ids (Dimensions Img) z_start z_end) out) =
        Some (Inr out')" by blast
    then show ?thesis using True t
      by (subst blocks_loop.simps) (simp add: assms(1) z_end_def [symmetric] Let_def)
  qed
qed

lemma conservative_no_division_by_zero:
  assumes "Dimensions Img = (d0, d1, d2)" "0 < d0" "0 < d1" "0 < z_block_size"
  shows "\<exists>out. BinarizeAndConvertDoubleToCharZAdaptiveConservative Img base z_block_size =
           Some (Inr out)"
  unfolding BinarizeAndConvertDoubleToCharZAdaptiveConservative_def
  by (rule blocks_loop_defined [OF assms])

subsection \<open>Unsupported bit depth\<close>

lemma Convert16To8bit_None_iff:
  "Convert16To8bit Img = Inr None \<longleftrightarrow>
     ScalarType Img \<noteq> VTK_UNSIGNED_CHAR \<and> ScalarType Img \<noteq> VTK_UNSIGNED_SHORT"
  by (auto simp: Convert16To8bit_def Let_def split: sum.splits)

lemma convert_unsupported:
  "ScalarType Img \<noteq> VTK_UNSIGNED_CHAR \<Longrightarrow> ScalarType Img \<noteq> VTK_UNSIGNED_SHORT \<Longrightarrow>
     MultiscaleVesselness_convert Img = Inl NullPointerDereference"
  by (simp add: MultiscaleVesselness_convert_def Convert16To8bit_def deref_def)

text \<open>
  Claim C9 fails on the code. For a 32-bit floating point volume the conversion returns
  \<^verbatim>\<open>NULL\<close>, and the orchestrator calls \<^verbatim>\<open>GetDimensions\<close> through it before the test
  of the pointer; no failure status is returned.
\<close>

theorem unsupported_depth_null_dereference:
  "Convert16To8bit float_image = Inr None \<and>
   MultiscaleVesselness_convert float_image = Inl NullPointerDereference"
  by (simp add: Convert16To8bit_def MultiscaleVesselness_convert_def float_image_def deref_def)

subsection \<open>Length and volume attributes\<close>

lemma two_point_length:
  "edge_length [p1, p2] [0, Suc 0] = segment_length p1 p2"
  by (simp add: edge_length_def numeral_2_eq_2)

text \<open>
  Claim C6, amended. On a single two-point edge of length \<open>L\<close> with constant width \<open>w\<close>,
  \<^verbatim>\<open>EstimateTubuleLength\<close> assigns \<open>Length = L\<close> to both points, and
  \<^verbatim>\<open>GetVolumeFromSkeletonLengthAndWidth\<close> appends exactly the attributes
  \<open>Total length = L\<close> and \<open>Volume from length = \<pi> L rad\<^sup>2\<close>, with \<open>rad\<close> the configured
  tubule radius; the frustum integral \<open>3.141592 L (w/2)\<^sup>2\<close> is accumulated in a local
  variable and is not emitted.
\<close>

theorem two_point_edge_attributes:
  "EstimateTubuleLength \<lparr>Points = [p1, p2], Cells = [[0, 1]], Width = [w, w]\<rparr> =
     [Some (segment_length p1 p2), Some (segment_length p1 p2)] \<and>
   GetVolumeFromSkeletonLengthAndWidth \<lparr>Points = [p1, p2], Cells = [[0, 1]], Width = [w, w]\<rparr> rad atts =
     atts @ [\<lparr>name = ''Total length (um)'', val = segment_length p1 p2\<rparr>,
             \<lparr>name = ''Volume from length (um3)'', val = pi * segment_length p1 p2 * rad\<^sup>2\<rparr>] \<and>
   fst (volume_and_length \<lparr>Points = [p1, p2], Cells = [[0, 1]], Width = [w, w]\<rparr>) =
     3.141592 * segment_length p1 p2 * (w / 2)\<^sup>2"
  by (simp add: EstimateTubuleLength_def GetVolumeFromSkeletonLengthAndWidth_def
      volume_and_length_def two_point_length numeral_2_eq_2 Let_def power2_eq_square algebra_simps)

text \<open>
  Claim C6, as stated, fails. For the straight edge of length 1 with width 1 and the
  default radius 0.15 the attributes are the total length 1 and the volume
  \<open>\<pi> \<times> 0.0225\<close>; neither is \<open>\<pi> L (w/2)\<^sup>2\<close>.
\<close>

theorem volume_attribute_not_from_width:
  "map val (GetVolumeFromSkeletonLengthAndWidth straight_edge 0.15 []) = [1, pi * 0.0225] \<and>
   segment_length (Points straight_edge ! 0) (Points straight_edge ! 1) = 1 \<and>
   Width straight_edge = [1, 1] \<and>
   (1::real) \<noteq> pi * 1 * (1 / 2)\<^sup>2 \<and> pi * 0.0225 \<noteq> pi * 1 * (1 / 2)\<^sup>2"
proof -
  have "pi < 4" by (rule pi_less_4)
  then have "(1::real) \<noteq> pi * 1 * (1 / 2)\<^sup>2" by (simp add: power2_eq_square)
  moreover have "pi * 0.0225 \<noteq> pi * 1 * (1 / 2)\<^sup>2" by (simp add: power2_eq_square)
  ultimately show ?thesis
    by (simp add: GetVolumeFromSkeletonLengthAndWidth_def volume_and_length_def straight_edge_def
      segment_length_def numeral_2_eq_2 Let_def power2_eq_square)
qed

subsection \<open>Graph-level fragment repair\<close>

lemma set_endpoints: "set (endpoints S) = {p. p < length (Points S) \<and> degree S p = 1}"
  by (auto simp: endpoints_def)

lemma sorted_endpoints: "sorted_wrt (<) (endpoints S)"
  unfolding endpoints_def by (intro sorted_wrt_filter) simp

lemma set_connections:
  "set (connections_to_add S gap) =
     {(endpoints S ! i, endpoints S ! j) |i j.
        i < j \<and> j < length (endpoints S) \<and>
        within_gap S gap (endpoints S ! i) (endpoints S ! j)}"
  apply (auto simp: connections_to_add_def Let_def)
  subgoal for x xa by (intro exI [of _ x] conjI refl exI [of _ xa]) auto
  subgoal for i j by (intro bexI [of _ i] conjI refl bexI [of _ j]) auto
  done

lemma connection_props:
  assumes "(p1, p2) \<in> set (connections_to_add S gap)"
  shows "p1 < p2 \<and> p1 \<in> set (endpoints S) \<and> p2 \<in> set (endpoints S) \<and> within_gap S gap p1 p2"
proof -
  from assms obtain i j where ij: "p1 = endpoints S ! i" "p2 = endpoints S ! j" "i < j"
    "j < length (endpoints S)" "within_gap S gap p1 p2"
    by (auto simp: set_connections)
  then have "p1 < p2" using sorted_endpoints [of S] by (simp add: sorted_wrt_nth_less)
  then show ?thesis using ij by simp
qed

lemma connection_complete:
  assumes "p1 \<in> set (endpoints S)" "p2 \<in> set (endpoints S)" "p1 < p2" "within_gap S gap p1 p2"
  shows "(p1, p2) \<in> set (connections_to_add S gap)"
proof -
  from assms obtain i j where ij: "i < length (endpoints S)" "endpoints S ! i = p1"
    "j < length (endpoints S)" "endpoints S ! j = p2"
    by (auto simp: in_set_conv_nth)
  have "i < j"
  proof (rule ccontr)
    assume "\<not> i < j"
    then have "j \<le> i" by simp
    then have "endpoints S ! j \<le> endpoints S ! i"
      using sorted_endpoints [of S] ij(1)
      by (cases "j = i") (auto simp: sorted_wrt_nth_less less_imp_le)
    then show False using ij assms(3) by simp
  qed
  then show ?thesis using ij assms(4) by (auto simp: set_connections)
qed

lemma new_cells:
  "drop (length (Cells S)) (Cells (ConnectSkeletonFragments S gap)) =
     map (\<lambda>connection. [fst connection, snd connection]) (connections_to_add S gap)"
  by (simp add: ConnectSkeletonFragments_def)

text \<open>
  Claim C10. \<^verbatim>\<open>ConnectSkeletonFragments\<close> keeps the points and the cells and adds only
  two-point lines; each added line joins two points of degree 1 whose distance is at
  most the gap distance and greater than 0.1, and a pair of degree-1 points is joined
  exactly when its distance satisfies both bounds. So end points at a distance of at
  most 0.1 are never joined.
\<close>

theorem fragment_repair_distance_bounds:
  "Points (ConnectSkeletonFragments S gap) = Points S \<and>
   take (length (Cells S)) (Cells (ConnectSkeletonFragments S gap)) = Cells S \<and>
   (\<forall>cell \<in> set (drop (length (Cells S)) (Cells (ConnectSkeletonFragments S gap))).
      \<exists>p1 p2. cell = [p1, p2] \<and> p1 < p2 \<and> p2 < length (Points S) \<and>
        degree S p1 = 1 \<and> degree S p2 = 1 \<and>
        segment_length (Points S ! p1) (Points S ! p2) \<le> gap \<and>
        segment_length (Points S ! p1) (Points S ! p2) > 0.1) \<and>
   (\<forall>p1 p2. p1 < p2 \<and> p2 < length (Points S) \<and> degree S p1 = 1 \<and> degree S p2 = 1 \<longrightarrow>
      ([p1, p2] \<in> set (drop (length (Cells S)) (Cells (ConnectSkeletonFragments S gap))) \<longleftrightarrow>
       segment_length (Points S ! p1) (Points S ! p2) \<le> gap \<and>
       segment_length (Points S ! p1) (Points S ! p2) > 0.1))"
proof (intro conjI ballI allI impI)
  show "Points (ConnectSkeletonFragments S gap) = Points S"
    by (simp add: ConnectSkeletonFragments_def)
  show "take (length (Cells S)) (Cells (ConnectSkeletonFragments S gap)) = Cells S"
    by (simp add: ConnectSkeletonFragments_def)
next
  fix cell
  assume "cell \<in> set (drop (length (Cells S)) (Cells (ConnectSkeletonFragments S gap)))"
  then obtain p1 p2 where c: "cell = [p1, p2]" "(p1, p2) \<in> set (connections_to_add S gap)"
    by (auto simp: new_cells)
  from connection_props [OF c(2)] show "\<exists>p1 p2. cell = [p1, p2] \<and> p1 < p2 \<and>
        p2 < length (Points S) \<and> degree S p1 = 1 \<and> degree S p2 = 1 \<and>
        segment_length (Points S ! p1) (Points S ! p2) \<le> gap \<and>
        segment_length (Points S ! p1) (Points S ! p2) > 0.1"
    using c(1) by (auto simp: set_endpoints within_gap_def Let_def)
next
  fix p1 p2
  assume a: "p1 < p2 \<and> p2 < length (Points S) \<and> degree S p1 = 1 \<and> degree S p2 = 1"
  then have e: "p1 \<in> set (endpoints S)" "p2 \<in> set (endpoints S)"
    by (simp_all add: set_endpoints)
  have "[p1, p2] \<in> set (drop (length (Cells S)) (Cells (ConnectSkeletonFragments S gap)))
          \<longleftrightarrow> (p1, p2) \<in> set (connections_to_add S gap)"
    by (force simp: new_cells)
  also have "\<dots> \<longleftrightarrow> within_gap S gap p1 p2"
    using connection_props [of p1 p2 S gap] connection_complete [OF e _, of gap] a by blast
  finally show "[p1, p2] \<in> set (drop (length (Cells S)) (Cells (ConnectSkeletonFragments S gap)))
     \<longleftrightarrow> segment_length (Points S ! p1) (Points S ! p2) \<le> gap \<and>
       segment_length (Points S ! p1) (Points S ! p2) > 0.1"
    by (simp add: within_gap_def Let_def)
qed

lemma upt_4: "[0..<4] = [0, 1, 2, 3]"
  by (simp add: upt_rec)

lemma endpoints_two_fragments: "endpoints two_fragments = [0, 1, 2, 3]"
  by (simp add: endpoints_def degree_def GetPointCells_def two_fragments_def upt_rec)

lemma connections_two_fragments:
  "connections_to_add two_fragments (3 / 2) = [(0, 1), (0, 2), (1, 3), (2, 3)]"
  by (simp add: connections_to_add_def endpoints_two_fragments upt_rec within_gap_def)
     (simp add: two_fragments_def segment_length_def)

theorem fragment_repair_distance_bounds_witness:
  "Cells (ConnectSkeletonFragments two_fragments (3 / 2)) =
     [[0, 1], [2, 3], [0, 1], [0, 2], [1, 3], [2, 3]] \<and>
   segment_length (Points two_fragments ! 1) (Points two_fragments ! 2) = 0 \<and>
   (1::nat) < 2 \<and> 2 < length (Points two_fragments) \<and>
   degree two_fragments 1 = 1 \<and> degree two_fragments 2 = 1 \<and>
   [1, 2] \<notin> set (drop (length (Cells two_fragments))
               (Cells (ConnectSkeletonFragments two_fragments (3 / 2)))) \<and>
   [0, 2] \<in> set (drop (length (Cells two_fragments))
               (Cells (ConnectSkeletonFragments two_fragments (3 / 2))))"
proof -
  have d: "degree two_fragments 1 = 1" "degree two_fragments 2 = 1"
    by (simp_all add: degree_def GetPointCells_def two_fragments_def upt_rec)
  have c: "Cells (ConnectSkeletonFragments two_fragments (3 / 2)) =
     [[0, 1], [2, 3], [0, 1], [0, 2], [1, 3], [2, 3]]"
    by (simp add: ConnectSkeletonFragments_def connections_two_fragments)
       (simp add: two_fragments_def)
  have s: "segment_length (Points two_fragments ! 1) (Points two_fragments ! 2) = 0"
    by (simp add: two_fragments_def segment_length_def)
  have l: "length (Points two_fragments) = 4" "length (Cells two_fragments) = 2"
    by (simp_all add: two_fragments_def)
  show ?thesis
    using fragment_repair_distance_bounds [of two_fragments "3 / 2"] d c s l by simp
qed

end
